theory Spec2Isabelle
  imports Main "HOL-Library.Word"
begin

unbundle bit_operations_syntax

section \<open>Data model of \<open>core/crypto/key_manager.cpp\<close>\<close>

type_synonym u8 = "8 word"
type_synonym u64 = "64 word"

text \<open>
  \<open>Key128\<close> is \<open>std::array<u8, 0x10>\<close> and \<open>Key256\<close> is \<open>std::array<u8, 0x20>\<close>. Both are
  byte lists here; the fixed lengths are the invariant \<open>wf_KeyManager\<close> below and explicit
  hypotheses where a theorem depends on them.
\<close>

type_synonym Key128 = "u8 list"
type_synonym Key256 = "u8 list"

text \<open>
  Modelled from the spec: the enumerations \<open>S128KeyType\<close> and \<open>S256KeyType\<close> and the struct
  \<open>KeyIndex\<close> are declared in \<open>key_manager.h\<close>, which is not among the sources. Their
  enumerators are the categories the spec lists for 128-bit and for 256-bit keys, all of which
  occur in \<open>key_manager.cpp\<close>; the struct has the members \<open>type\<close>, \<open>field1\<close> and \<open>field2\<close> that
  the code reads.
\<close>

datatype S128KeyType =
  Master | Package1 | Package2 | Titlekey | Titlekek | ETicketRSAKek | KeyArea | Source | SDSeed

datatype S256KeyType = Header | SDKeySource

datatype KeyAreaKeyType = Application | Ocean | System

datatype SourceKeyType = SDKEK | AESKEKGeneration | AESKeyGeneration

datatype SDKeyType = Save | NCA

text \<open>
  Modelled from the spec: the enumerator values of \<open>KeyAreaKeyType\<close>, \<open>SourceKeyType\<close> and
  \<open>SDKeyType\<close> (declared in \<open>key_manager.h\<close>, which is not among the sources). The spec lists
  the enumerators as \<open>{Application, Ocean, System}\<close>, \<open>{SDKEK, AESKEKGeneration,
  AESKeyGeneration}\<close> and (save, content-archive); they are numbered in that order, as
  \<open>static_cast<u64>\<close> of an unvalued enumerator list gives.
\<close>

fun u64_of_KeyAreaKeyType :: "KeyAreaKeyType \<Rightarrow> u64" where
  "u64_of_KeyAreaKeyType Application = 0"
| "u64_of_KeyAreaKeyType Ocean = 1"
| "u64_of_KeyAreaKeyType System = 2"

fun u64_of_SourceKeyType :: "SourceKeyType \<Rightarrow> u64" where
  "u64_of_SourceKeyType SDKEK = 0"
| "u64_of_SourceKeyType AESKEKGeneration = 1"
| "u64_of_SourceKeyType AESKeyGeneration = 2"

fun u64_of_SDKeyType :: "SDKeyType \<Rightarrow> u64" where
  "u64_of_SDKeyType Save = 0"
| "u64_of_SDKeyType NCA = 1"

text \<open>\<open>KeyIndex<KeyType>\<close>: the triple \<open>{type, field1, field2}\<close> that keys both maps.\<close>

datatype 'a KeyIndex = KeyIndex (ktype: 'a) (field1: u64) (field2: u64)

text \<open>
  The members of \<open>KeyManager\<close>: the two \<open>std::map\<close>s and the \<open>dev_mode\<close> flag. A
  \<open>std::map\<close> holds at most one value per key, as a partial function does.
\<close>

record KeyManager =
  s128_keys :: "S128KeyType KeyIndex \<rightharpoonup> Key128"
  s256_keys :: "S256KeyType KeyIndex \<rightharpoonup> Key256"
  dev_mode :: bool

definition wf_KeyManager :: "KeyManager \<Rightarrow> bool" where
  "wf_KeyManager km \<longleftrightarrow>
     (\<forall>i k. s128_keys km i = Some k \<longrightarrow> length k = 16) \<and>
     (\<forall>i k. s256_keys km i = Some k \<longrightarrow> length k = 32)"

subsection \<open>\<open>HasKey\<close> and \<open>GetKey\<close>\<close>

text \<open>
  \<open>s128_keys.find({id, field1, field2}) != s128_keys.end()\<close>. Calls that give fewer
  arguments, such as \<open>keys.HasKey(S128KeyType::SDSeed)\<close>, rely on default arguments declared
  in \<open>key_manager.h\<close>; they are written out as 0 below, the fields under which the name tables
  of \<open>key_manager.cpp\<close> file these keys (\<open>{SDSeed, 0, 0}\<close>, \<open>{Master, 0, 0}\<close>,
  \<open>{Source, SDKEK, 0}\<close>).
\<close>

definition HasKey128 :: "KeyManager \<Rightarrow> S128KeyType \<Rightarrow> u64 \<Rightarrow> u64 \<Rightarrow> bool" where
  "HasKey128 km kid f1 f2 \<longleftrightarrow> s128_keys km (KeyIndex kid f1 f2) \<noteq> None"

definition HasKey256 :: "KeyManager \<Rightarrow> S256KeyType \<Rightarrow> u64 \<Rightarrow> u64 \<Rightarrow> bool" where
  "HasKey256 km kid f1 f2 \<longleftrightarrow> s256_keys km (KeyIndex kid f1 f2) \<noteq> None"

text \<open>
  \<open>if (!HasKey(id, field1, field2)) return {}; return s128_keys.at({id, field1, field2});\<close>
  The value-initialised array \<open>{}\<close> is all zero; \<open>at\<close> is only reached on a present key.
\<close>

definition GetKey128 :: "KeyManager \<Rightarrow> S128KeyType \<Rightarrow> u64 \<Rightarrow> u64 \<Rightarrow> Key128" where
  "GetKey128 km kid f1 f2 =
     (if \<not> HasKey128 km kid f1 f2 then replicate 16 0
      else the (s128_keys km (KeyIndex kid f1 f2)))"

definition GetKey256 :: "KeyManager \<Rightarrow> S256KeyType \<Rightarrow> u64 \<Rightarrow> u64 \<Rightarrow> Key256" where
  "GetKey256 km kid f1 f2 =
     (if \<not> HasKey256 km kid f1 f2 then replicate 32 0
      else the (s256_keys km (KeyIndex kid f1 f2)))"

section \<open>Derivation engine\<close>

subsection \<open>The block cipher\<close>

text \<open>
  \<open>AESCipher<Key128>\<close>, \<open>Mode\<close> and \<open>Op\<close> come from \<open>core/crypto/aes_util.h\<close>, which is not
  among the sources, so the cipher is a parameter \<open>aes\<close> of every function that uses it:
  \<open>aes key mode op bytes\<close> are the bytes that a cipher built from \<open>key\<close> and \<open>mode\<close> produces
  from \<open>bytes\<close> in direction \<open>op\<close>. Only \<open>Mode::ECB\<close> and \<open>Op::Decrypt\<close> occur in the code.
\<close>

datatype Mode = ECB

datatype Op = Encrypt | Decrypt

type_synonym aes_transform = "Key128 \<Rightarrow> Mode \<Rightarrow> Op \<Rightarrow> u8 list \<Rightarrow> u8 list"

record AESCipher =
  cipher_key :: Key128
  cipher_mode :: Mode

text \<open>A cipher writes as many bytes as it reads.\<close>

definition keeps_size :: "aes_transform \<Rightarrow> bool" where
  "keeps_size aes \<longleftrightarrow> (\<forall>k m op bs. length (aes k m op bs) = length bs)"

text \<open>Writing \<open>bytes\<close> at the start of the buffer \<open>dest\<close>; the rest of \<open>dest\<close> stays.\<close>

definition buf_write :: "u8 list \<Rightarrow> u8 list \<Rightarrow> u8 list" where
  "buf_write dest bytes = bytes @ drop (length bytes) dest"

text \<open>
  \<open>cipher.Transcode(src, size, dest, op)\<close>: the first \<open>size\<close> bytes of \<open>src\<close> are transformed
  and written to \<open>dest\<close>. The cipher holds the key it was built with; a later change of the
  array the key was taken from does not reach it.
\<close>

definition Transcode ::
  "aes_transform \<Rightarrow> AESCipher \<Rightarrow> u8 list \<Rightarrow> nat \<Rightarrow> u8 list \<Rightarrow> Op \<Rightarrow> u8 list" where
  "Transcode aes c src len dest op =
     buf_write dest (aes (cipher_key c) (cipher_mode c) op (take len src))"

subsection \<open>\<open>GenerateKeyEncryptionKey\<close>\<close>

definition GenerateKeyEncryptionKey ::
  "aes_transform \<Rightarrow> Key128 \<Rightarrow> Key128 \<Rightarrow> Key128 \<Rightarrow> Key128 \<Rightarrow> Key128" where
  "GenerateKeyEncryptionKey aes source master kek_seed key_seed =
     (let out = replicate 16 0;
          cipher1 = \<lparr>cipher_key = master, cipher_mode = ECB\<rparr>;
          out = Transcode aes cipher1 kek_seed (length kek_seed) out Decrypt;
          cipher2 = \<lparr>cipher_key = out, cipher_mode = ECB\<rparr>;
          out = Transcode aes cipher2 source (length source) out Decrypt
      in if key_seed \<noteq> replicate 16 0 then
           let cipher3 = \<lparr>cipher_key = out, cipher_mode = ECB\<rparr>
           in Transcode aes cipher3 key_seed (length key_seed) out Decrypt
         else out)"

text \<open>
  The chain in the words of the specification, for comparison with the code: unwrap
  \<open>kekSeed\<close> under \<open>masterKey\<close>, unwrap \<open>source\<close> under the result, and unwrap \<open>keySeed\<close> under
  that unless \<open>keySeed\<close> is the all-zero key. An unwrap is an ECB decryption.
\<close>

definition unwrap :: "aes_transform \<Rightarrow> Key128 \<Rightarrow> u8 list \<Rightarrow> u8 list" where
  "unwrap aes key bytes = aes key ECB Decrypt bytes"

definition kek_chain_spec ::
  "aes_transform \<Rightarrow> Key128 \<Rightarrow> Key128 \<Rightarrow> Key128 \<Rightarrow> Key128 \<Rightarrow> Key128" where
  "kek_chain_spec aes source masterKey kekSeed keySeed =
     (let intermediate1 = unwrap aes masterKey kekSeed;
          intermediate2 = unwrap aes intermediate1 source
      in if keySeed \<noteq> replicate 16 0 then unwrap aes intermediate2 keySeed
         else intermediate2)"

subsection \<open>\<open>DeriveSDSeed\<close>\<close>

text \<open>
  Modelled from the spec: \<open>FileUtil::IOFile\<close> of \<open>common/file_util.h\<close>, which is not among
  the sources; the spec treats file access as "opaque byte-stream read/write with existence
  checks". An \<open>IOFile\<close> is its contents and \<open>GetSize\<close> their length. \<open>Seek(pos, SEEK_SET)\<close>
  followed by \<open>ReadBytes(buf, n)\<close> copies the bytes that exist from \<open>pos\<close> on, at most \<open>n\<close>,
  over the start of \<open>buf\<close> and returns how many it copied; a short read leaves the rest of
  \<open>buf\<close> as it was.
\<close>

definition ReadBytes :: "u8 list \<Rightarrow> nat \<Rightarrow> u8 list \<Rightarrow> nat \<Rightarrow> u8 list \<times> nat" where
  "ReadBytes file pos buf n =
     (let got = take n (drop pos file) in (buf_write buf got, length got))"

text \<open>
  The scan loop \<open>for (; offset + 0x10 < save_43.GetSize(); ++offset)\<close> with its \<open>break\<close>; the
  result is the value of \<open>offset\<close> after the loop. Offsets are \<open>size_t\<close>; \<open>offset + 0x10\<close>
  stays below the file size while the loop runs, so it never wraps and \<open>nat\<close> is exact.
\<close>

function scan_loop :: "u8 list \<Rightarrow> u8 list \<Rightarrow> u8 list \<Rightarrow> nat \<Rightarrow> nat" where
  "scan_loop save_43 private_seed buffer offset =
     (if offset + 0x10 < length save_43 then
        (let buffer = fst (ReadBytes save_43 offset buffer 0x10)
         in if buffer = private_seed then offset
            else scan_loop save_43 private_seed buffer (offset + 1))
      else offset)"
  by pat_completeness auto
termination
  by (relation "measure (\<lambda>(save_43, private_seed, buffer, offset). length save_43 - offset)") auto

text \<open>
  The two files are arguments: \<open>None\<close> is a file that \<open>IsOpen\<close> denies, \<open>Some bytes\<close> an open
  file with those contents.
\<close>

definition DeriveSDSeed :: "u8 list option \<Rightarrow> u8 list option \<Rightarrow> Key128 option" where
  "DeriveSDSeed save_43 sd_private =
     (case save_43 of
        None \<Rightarrow> None
      | Some save \<Rightarrow>
         (case sd_private of
            None \<Rightarrow> None
          | Some priv \<Rightarrow>
             (let (private_seed, n) = ReadBytes priv 0 (replicate 16 0) 0x10
              in if n \<noteq> 0x10 then None
                 else
                  (let offset = scan_loop save private_seed (replicate 16 0) 0
                   in if offset + 0x10 \<ge> length save then None
                      else Some (fst (ReadBytes save (offset + 0x10) (replicate 16 0) 0x10))))))"

subsection \<open>\<open>DeriveSDKeys\<close>\<close>

text \<open>The values of \<open>Loader::ResultStatus\<close> that \<open>DeriveSDKeys\<close> returns.\<close>

datatype ResultStatus =
  Success
| ErrorMissingSDKEKSource
| ErrorMissingAESKEKGenerationSource
| ErrorMissingAESKeyGenerationSource
| ErrorMissingSDSeed
| ErrorMissingSDSaveKeySource
| ErrorMissingSDNCAKeySource

text \<open>The calls a routine makes on the key store, in the order it makes them.\<close>

datatype Access =
  CallHasKey128 S128KeyType u64 u64
| CallGetKey128 S128KeyType u64 u64
| CallHasKey256 S256KeyType u64 u64
| CallGetKey256 S256KeyType u64 u64

text \<open>
  \<open>for (size_t i = 0; i < source.size(); ++i) source[i] ^= sd_seed[i & 0xF];\<close>
\<close>

function combine_loop :: "nat \<Rightarrow> u8 list \<Rightarrow> Key128 \<Rightarrow> u8 list" where
  "combine_loop i source sd_seed =
     (if i < length source then
        combine_loop (i + 1) (source[i := source ! i XOR sd_seed ! (i AND 0xF)]) sd_seed
      else source)"
  by pat_completeness auto
termination
  by (relation "measure (\<lambda>(i, source, sd_seed). length source - i)") auto

text \<open>
  \<open>std::transform(sd_key_sources.begin(), sd_key_sources.end(), sd_keys.begin(),
  sd_key_sources.begin(), op)\<close>, as far as \<open>sd_keys\<close> is concerned: \<open>op\<close> decrypts each source
  into the element of \<open>sd_keys\<close> at the same position and returns the source unaltered.
\<close>

fun transform_decrypt ::
  "aes_transform \<Rightarrow> AESCipher \<Rightarrow> Key256 list \<Rightarrow> Key256 list \<Rightarrow> Key256 list" where
  "transform_decrypt aes cipher (source # sources) (out # outs) =
     Transcode aes cipher source (length source) out Decrypt
       # transform_decrypt aes cipher sources outs"
| "transform_decrypt aes cipher sources outs = outs"

text \<open>
  \<open>DeriveSDKeys(sd_keys, keys)\<close> returns the status, the array \<open>sd_keys\<close> as it leaves it, and
  the calls it made on \<open>keys\<close>.
\<close>

definition DeriveSDKeys ::
  "aes_transform \<Rightarrow> Key256 list \<Rightarrow> KeyManager \<Rightarrow> ResultStatus \<times> Key256 list \<times> Access list" where
  "DeriveSDKeys aes sd_keys keys =
     (let log = [CallHasKey128 Source (u64_of_SourceKeyType SDKEK) 0] in
      if \<not> HasKey128 keys Source (u64_of_SourceKeyType SDKEK) 0
      then (ErrorMissingSDKEKSource, sd_keys, log) else
      let log = log @ [CallHasKey128 Source (u64_of_SourceKeyType AESKEKGeneration) 0] in
      if \<not> HasKey128 keys Source (u64_of_SourceKeyType AESKEKGeneration) 0
      then (ErrorMissingAESKEKGenerationSource, sd_keys, log) else
      let log = log @ [CallHasKey128 Source (u64_of_SourceKeyType AESKeyGeneration) 0] in
      if \<not> HasKey128 keys Source (u64_of_SourceKeyType AESKeyGeneration) 0
      then (ErrorMissingAESKeyGenerationSource, sd_keys, log) else
      let sd_kek_source = GetKey128 keys Source (u64_of_SourceKeyType SDKEK) 0;
          log = log @ [CallGetKey128 Source (u64_of_SourceKeyType SDKEK) 0];
          aes_kek_gen = GetKey128 keys Source (u64_of_SourceKeyType AESKEKGeneration) 0;
          log = log @ [CallGetKey128 Source (u64_of_SourceKeyType AESKEKGeneration) 0];
          aes_key_gen = GetKey128 keys Source (u64_of_SourceKeyType AESKeyGeneration) 0;
          log = log @ [CallGetKey128 Source (u64_of_SourceKeyType AESKeyGeneration) 0];
          master_00 = GetKey128 keys Master 0 0;
          log = log @ [CallGetKey128 Master 0 0];
          sd_kek = GenerateKeyEncryptionKey aes sd_kek_source master_00 aes_kek_gen aes_key_gen;
          log = log @ [CallHasKey128 SDSeed 0 0] in
      if \<not> HasKey128 keys SDSeed 0 0
      then (ErrorMissingSDSeed, sd_keys, log) else
      let sd_seed = GetKey128 keys SDSeed 0 0;
          log = log @ [CallGetKey128 SDSeed 0 0];
          log = log @ [CallHasKey256 SDKeySource (u64_of_SDKeyType Save) 0] in
      if \<not> HasKey256 keys SDKeySource (u64_of_SDKeyType Save) 0
      then (ErrorMissingSDSaveKeySource, sd_keys, log) else
      let log = log @ [CallHasKey256 SDKeySource (u64_of_SDKeyType NCA) 0] in
      if \<not> HasKey256 keys SDKeySource (u64_of_SDKeyType NCA) 0
      then (ErrorMissingSDNCAKeySource, sd_keys, log) else
      let sd_key_sources =
            [GetKey256 keys SDKeySource (u64_of_SDKeyType Save) 0,
             GetKey256 keys SDKeySource (u64_of_SDKeyType NCA) 0];
          log = log @ [CallGetKey256 SDKeySource (u64_of_SDKeyType Save) 0,
                       CallGetKey256 SDKeySource (u64_of_SDKeyType NCA) 0];
          sd_key_sources = map (\<lambda>source. combine_loop 0 source sd_seed) sd_key_sources;
          cipher = \<lparr>cipher_key = sd_kek, cipher_mode = ECB\<rparr>;
          sd_keys = transform_decrypt aes cipher sd_key_sources sd_keys
      in (Success, sd_keys, log))"

text \<open>
  The combination of a source with the seed in the words of the specification, for
  comparison with \<open>combine_loop\<close>: byte \<open>i\<close> is XORed with \<open>seed[i mod 16]\<close>.
\<close>

definition xor_with_seed :: "Key128 \<Rightarrow> u8 list \<Rightarrow> u8 list" where
  "xor_with_seed seed source = map (\<lambda>i. source ! i XOR seed ! (i mod 16)) [0..<length source]"

text \<open>The six operands whose presence \<open>DeriveSDKeys\<close> checks are all in the store.\<close>

definition all_operands :: "KeyManager \<Rightarrow> bool" where
  "all_operands keys \<longleftrightarrow>
     HasKey128 keys Source (u64_of_SourceKeyType SDKEK) 0 \<and>
     HasKey128 keys Source (u64_of_SourceKeyType AESKEKGeneration) 0 \<and>
     HasKey128 keys Source (u64_of_SourceKeyType AESKeyGeneration) 0 \<and>
     HasKey128 keys SDSeed 0 0 \<and>
     HasKey256 keys SDKeySource (u64_of_SDKeyType Save) 0 \<and>
     HasKey256 keys SDKeySource (u64_of_SDKeyType NCA) 0"

section \<open>Key file codec and key store updates\<close>

subsection \<open>The environment\<close>

text \<open>
  What the code takes from outside \<open>key_manager.cpp\<close>: the two key directories
  (\<open>FileUtil::GetUserPath(UserPath::KeysDir)\<close> and \<open>FileUtil::GetHactoolConfigurationPath()\<close>),
  the macro \<open>DIR_SEP\<close>, the setting \<open>Settings::values.use_dev_keys\<close>, and the hex conversions
  \<open>Common::HexStringToArray<16>\<close>, \<open>Common::HexStringToArray<32>\<close> and
  \<open>Common::HexArrayToString\<close> of \<open>common/hex_util.h\<close>. None of them is among the sources, so
  they are parameters. \<open>can_append path\<close> says whether \<open>std::ofstream(path, std::ios::app)\<close>
  opens. \<open>reload_sees_append\<close> says whether the text written to the still open output stream
  has reached the file when \<open>WriteKeyToFile\<close> reads the file back; the code does not flush, so
  both are possible.
\<close>

record Env =
  KeysDir :: string
  HactoolDir :: string
  DIR_SEP :: string
  use_dev_keys :: bool
  HexStringToArray16 :: "string \<Rightarrow> u8 list"
  HexStringToArray32 :: "string \<Rightarrow> u8 list"
  HexArrayToString :: "u8 list \<Rightarrow> string"
  can_append :: "string \<Rightarrow> bool"
  reload_sees_append :: bool

text \<open>
  Modelled from the spec: \<open>FileUtil::Exists\<close> of \<open>common/file_util.h\<close>, which is not among
  the sources (file access is "opaque byte-stream read/write with existence checks"). The
  files are a map: a path has contents or does not exist, and a file that exists can be
  opened for reading.
\<close>

type_synonym FileSystem = "string \<rightharpoonup> string"

definition Exists :: "FileSystem \<Rightarrow> string \<Rightarrow> bool" where
  "Exists fs path \<longleftrightarrow> fs path \<noteq> None"

subsection \<open>The name tables\<close>

text \<open>
  \<open>s128_file_id\<close> and \<open>s256_file_id\<close>, in the order of the initialiser lists. A
  \<open>flat_map\<close> iterates in key order, which differs; no index occurs twice, so \<open>find_if\<close> on
  an index finds the same entry in either order (\<open>distinct_s128_file_id\<close> below).
\<close>

definition s128_file_id :: "(string \<times> S128KeyType KeyIndex) list" where
  "s128_file_id =
    [(''master_key_00'', KeyIndex Master 0 0),
     (''master_key_01'', KeyIndex Master 1 0),
     (''master_key_02'', KeyIndex Master 2 0),
     (''master_key_03'', KeyIndex Master 3 0),
     (''master_key_04'', KeyIndex Master 4 0),
     (''package1_key_00'', KeyIndex Package1 0 0),
     (''package1_key_01'', KeyIndex Package1 1 0),
     (''package1_key_02'', KeyIndex Package1 2 0),
     (''package1_key_03'', KeyIndex Package1 3 0),
     (''package1_key_04'', KeyIndex Package1 4 0),
     (''package2_key_00'', KeyIndex Package2 0 0),
     (''package2_key_01'', KeyIndex Package2 1 0),
     (''package2_key_02'', KeyIndex Package2 2 0),
     (''package2_key_03'', KeyIndex Package2 3 0),
     (''package2_key_04'', KeyIndex Package2 4 0),
     (''titlekek_00'', KeyIndex Titlekek 0 0),
     (''titlekek_01'', KeyIndex Titlekek 1 0),
     (''titlekek_02'', KeyIndex Titlekek 2 0),
     (''titlekek_03'', KeyIndex Titlekek 3 0),
     (''titlekek_04'', KeyIndex Titlekek 4 0),
     (''eticket_rsa_kek'', KeyIndex ETicketRSAKek 0 0),
     (''key_area_key_application_00'', KeyIndex KeyArea 0 (u64_of_KeyAreaKeyType Application)),
     (''key_area_key_application_01'', KeyIndex KeyArea 1 (u64_of_KeyAreaKeyType Application)),
     (''key_area_key_application_02'', KeyIndex KeyArea 2 (u64_of_KeyAreaKeyType Application)),
     (''key_area_key_application_03'', KeyIndex KeyArea 3 (u64_of_KeyAreaKeyType Application)),
     (''key_area_key_application_04'', KeyIndex KeyArea 4 (u64_of_KeyAreaKeyType Application)),
     (''key_area_key_ocean_00'', KeyIndex KeyArea 0 (u64_of_KeyAreaKeyType Ocean)),
     (''key_area_key_ocean_01'', KeyIndex KeyArea 1 (u64_of_KeyAreaKeyType Ocean)),
     (''key_area_key_ocean_02'', KeyIndex KeyArea 2 (u64_of_KeyAreaKeyType Ocean)),
     (''key_area_key_ocean_03'', KeyIndex KeyArea 3 (u64_of_KeyAreaKeyType Ocean)),
     (''key_area_key_ocean_04'', KeyIndex KeyArea 4 (u64_of_KeyAreaKeyType Ocean)),
     (''key_area_key_system_00'', KeyIndex KeyArea 0 (u64_of_KeyAreaKeyType System)),
     (''key_area_key_system_01'', KeyIndex KeyArea 1 (u64_of_KeyAreaKeyType System)),
     (''key_area_key_system_02'', KeyIndex KeyArea 2 (u64_of_KeyAreaKeyType System)),
     (''key_area_key_system_03'', KeyIndex KeyArea 3 (u64_of_KeyAreaKeyType System)),
     (''key_area_key_system_04'', KeyIndex KeyArea 4 (u64_of_KeyAreaKeyType System)),
     (''sd_card_kek_source'', KeyIndex Source (u64_of_SourceKeyType SDKEK) 0),
     (''aes_kek_generation_source'', KeyIndex Source (u64_of_SourceKeyType AESKEKGeneration) 0),
     (''aes_key_generation_source'', KeyIndex Source (u64_of_SourceKeyType AESKeyGeneration) 0),
     (''sd_seed'', KeyIndex SDSeed 0 0)]"

definition s256_file_id :: "(string \<times> S256KeyType KeyIndex) list" where
  "s256_file_id =
    [(''header_key'', KeyIndex Header 0 0),
     (''sd_card_save_key_source'', KeyIndex SDKeySource (u64_of_SDKeyType Save) 0),
     (''sd_card_nca_key_source'', KeyIndex SDKeySource (u64_of_SDKeyType NCA) 0)]"

subsection \<open>Reading lines and items\<close>

text \<open>
  The items that repeated \<open>std::getline(stream, item, delim)\<close> yields from the characters
  left in the stream, \<open>cur\<close> being the characters of the item read so far. A delimiter ends an
  item, also an empty one; at the end of the input an item is yielded only if it has a
  character, since \<open>getline\<close> fails when it extracts nothing.
\<close>

fun getline_items :: "char \<Rightarrow> string \<Rightarrow> string \<Rightarrow> string list" where
  "getline_items delim cur [] = (if cur = [] then [] else [cur])"
| "getline_items delim cur (c # cs) =
     (if c = delim then cur # getline_items delim [] cs
      else getline_items delim (cur @ [c]) cs)"

text \<open>\<open>s.erase(std::remove(s.begin(), s.end(), ' '), s.end())\<close>\<close>

definition remove_spaces :: "string \<Rightarrow> string" where
  "remove_spaces s = filter (\<lambda>c. c \<noteq> CHR '' '') s"

text \<open>\<open>::tolower\<close> in the C locale: the letters \<open>A\<close> to \<open>Z\<close> change, nothing else does.\<close>

definition tolower :: "char \<Rightarrow> char" where
  "tolower c =
     (if (65::nat) \<le> of_char c \<and> of_char c \<le> (90::nat) then char_of (of_char c + (32::nat))
      else c)"

subsection \<open>Rights identifiers and 64-bit fields\<close>

text \<open>
  \<open>std::memcpy\<close> between bytes and a \<open>u64\<close> on the little-endian hosts the program is built
  for: the first byte is the least significant.
\<close>

fun load_u64 :: "u8 list \<Rightarrow> u64" where
  "load_u64 [] = 0"
| "load_u64 (b # bs) = ucast b OR push_bit 8 (load_u64 bs)"

fun store_u64 :: "nat \<Rightarrow> u64 \<Rightarrow> u8 list" where
  "store_u64 0 w = []"
| "store_u64 (Suc n) w = ucast w # store_u64 n (drop_bit 8 w)"

text \<open>
  \<open>u128 rights_id{}; std::memcpy(rights_id.data(), rights_id_raw.data(),
  rights_id_raw.size());\<close> where \<open>u128\<close> is an array of two \<open>u64\<close>, as the code's
  \<open>rights_id[1]\<close> and \<open>rights_id[0]\<close> show.
\<close>

definition memcpy_u128 :: "u8 list \<Rightarrow> u64 list" where
  "memcpy_u128 rights_id_raw =
     [load_u64 (take 8 rights_id_raw), load_u64 (take 8 (drop 8 rights_id_raw))]"

text \<open>
  The rights identifier that \<open>SetKey\<close> rebuilds for a title key:
  \<open>std::memcpy(rights_id.data(), &field2, sizeof(u64));
  std::memcpy(rights_id.data() + sizeof(u64), &field1, sizeof(u64));\<close>
\<close>

definition rights_id_of_fields :: "u64 \<Rightarrow> u64 \<Rightarrow> Key128" where
  "rights_id_of_fields f1 f2 = store_u64 8 f2 @ store_u64 8 f1"

subsection \<open>\<open>LoadFromFile\<close> and \<open>AttemptLoadKeyFile\<close>\<close>

text \<open>The body of the \<open>while (std::getline(file, line))\<close> loop, for one line.\<close>

definition load_line :: "Env \<Rightarrow> bool \<Rightarrow> KeyManager \<Rightarrow> string \<Rightarrow> KeyManager" where
  "load_line env is_title_keys km line =
     (let out = getline_items CHR ''='' [] line in
      if length out \<noteq> 2 then km
      else
       (let out0 = remove_spaces (out ! 0);
            out1 = remove_spaces (out ! 1)
        in if is_title_keys then
             (let rights_id_raw = HexStringToArray16 env out0;
                  rights_id = memcpy_u128 rights_id_raw;
                  key = HexStringToArray16 env out1
              in km\<lparr>s128_keys :=
                     (s128_keys km)(KeyIndex Titlekey (rights_id ! 1) (rights_id ! 0) \<mapsto> key)\<rparr>)
           else
             (let out0 = map tolower out0
              in case map_of s128_file_id out0 of
                   Some index \<Rightarrow>
                     (let key = HexStringToArray16 env out1
                      in km\<lparr>s128_keys :=
                             (s128_keys km)
                               (KeyIndex (ktype index) (field1 index) (field2 index) \<mapsto> key)\<rparr>)
                 | None \<Rightarrow>
                     (case map_of s256_file_id out0 of
                        Some index \<Rightarrow>
                          (let key = HexStringToArray32 env out1
                           in km\<lparr>s256_keys :=
                                  (s256_keys km)
                                    (KeyIndex (ktype index) (field1 index) (field2 index)
                                       \<mapsto> key)\<rparr>)
                      | None \<Rightarrow> km))))"

definition LoadFromFile :: "Env \<Rightarrow> FileSystem \<Rightarrow> string \<Rightarrow> bool \<Rightarrow> KeyManager \<Rightarrow> KeyManager" where
  "LoadFromFile env fs filename is_title_keys km =
     (case fs filename of
        None \<Rightarrow> km
      | Some contents \<Rightarrow>
          foldl (load_line env is_title_keys) km (getline_items CHR 0x0A [] contents))"

definition AttemptLoadKeyFile ::
  "Env \<Rightarrow> FileSystem \<Rightarrow> string \<Rightarrow> string \<Rightarrow> string \<Rightarrow> bool \<Rightarrow> KeyManager \<Rightarrow> KeyManager" where
  "AttemptLoadKeyFile env fs dir1 dir2 filename title km =
     (if Exists fs (dir1 @ DIR_SEP env @ filename)
      then LoadFromFile env fs (dir1 @ DIR_SEP env @ filename) title km
      else if Exists fs (dir2 @ DIR_SEP env @ filename)
      then LoadFromFile env fs (dir2 @ DIR_SEP env @ filename) title km
      else km)"

subsection \<open>The constructor\<close>

definition KeyManager_ctor :: "Env \<Rightarrow> FileSystem \<Rightarrow> KeyManager" where
  "KeyManager_ctor env fs =
     (let km = \<lparr>s128_keys = Map.empty, s256_keys = Map.empty, dev_mode = False\<rparr>;
          hactool_keys_dir = HactoolDir env;
          yuzu_keys_dir = KeysDir env;
          km =
            (if use_dev_keys env then
               (let km = km\<lparr>dev_mode := True\<rparr>;
                    km = AttemptLoadKeyFile env fs yuzu_keys_dir hactool_keys_dir
                           ''dev.keys'' False km
                in AttemptLoadKeyFile env fs yuzu_keys_dir yuzu_keys_dir
                     ''dev.keys_autogenerated'' False km)
             else
               (let km = km\<lparr>dev_mode := False\<rparr>;
                    km = AttemptLoadKeyFile env fs yuzu_keys_dir hactool_keys_dir
                           ''prod.keys'' False km
                in AttemptLoadKeyFile env fs yuzu_keys_dir yuzu_keys_dir
                     ''prod.keys_autogenerated'' False km));
          km = AttemptLoadKeyFile env fs yuzu_keys_dir hactool_keys_dir ''title.keys'' True km
      in AttemptLoadKeyFile env fs yuzu_keys_dir yuzu_keys_dir
           ''title.keys_autogenerated'' True km)"

subsection \<open>\<open>WriteKeyToFile\<close> and \<open>SetKey\<close>\<close>

definition info_text :: string where
  "info_text =
     ''# This file is autogenerated by Yuzu'' @ [CHR 0x0A] @
     ''# It serves to store keys that were automatically generated from the normal keys''
       @ [CHR 0x0A] @
     ''# If you are experiencing issues involving keys, it may help to delete this file''
       @ [CHR 0x0A]"

text \<open>
  The state is the key manager and the files. Opening the stream creates the file; the
  text reaches the file when the stream is closed at the latest, that is after the reload.
\<close>

definition WriteKeyToFile ::
  "Env \<Rightarrow> bool \<Rightarrow> string \<Rightarrow> u8 list \<Rightarrow> KeyManager \<times> FileSystem \<Rightarrow> KeyManager \<times> FileSystem" where
  "WriteKeyToFile env title_key keyname key st =
     (let km = fst st;
          fs = snd st;
          yuzu_keys_dir = KeysDir env;
          filename =
            (if \<not> title_key
             then (if dev_mode km then ''dev.keys_autogenerated'' else ''prod.keys_autogenerated'')
             else ''title.keys_autogenerated'');
          path = yuzu_keys_dir @ DIR_SEP env @ filename;
          add_info_text = \<not> Exists fs path
      in if \<not> can_append env path then (km, fs)
         else
          (let old = (case fs path of None \<Rightarrow> [] | Some contents \<Rightarrow> contents);
               written =
                 (if add_info_text then info_text else [])
                   @ [CHR 0x0A] @ keyname @ '' = '' @ HexArrayToString env key;
               fs_opened = fs(path \<mapsto> old);
               fs_closed = fs(path \<mapsto> old @ written);
               km = AttemptLoadKeyFile env
                      (if reload_sees_append env then fs_closed else fs_opened)
                      yuzu_keys_dir yuzu_keys_dir filename title_key km
           in (km, fs_closed)))"

definition SetKey128 ::
  "Env \<Rightarrow> S128KeyType \<Rightarrow> Key128 \<Rightarrow> u64 \<Rightarrow> u64 \<Rightarrow> KeyManager \<times> FileSystem
     \<Rightarrow> KeyManager \<times> FileSystem" where
  "SetKey128 env kid key f1 f2 st =
     (if s128_keys (fst st) (KeyIndex kid f1 f2) \<noteq> None then st
      else
       (let st =
              (if kid = Titlekey
               then WriteKeyToFile env True
                      (HexArrayToString env (rights_id_of_fields f1 f2)) key st
               else st);
            iter2 = find (\<lambda>elem. snd elem = KeyIndex kid f1 f2) s128_file_id;
            st = (case iter2 of
                    Some elem \<Rightarrow> WriteKeyToFile env False (fst elem) key st
                  | None \<Rightarrow> st)
        in ((fst st)\<lparr>s128_keys := (s128_keys (fst st))(KeyIndex kid f1 f2 \<mapsto> key)\<rparr>, snd st)))"

definition SetKey256 ::
  "Env \<Rightarrow> S256KeyType \<Rightarrow> Key256 \<Rightarrow> u64 \<Rightarrow> u64 \<Rightarrow> KeyManager \<times> FileSystem
     \<Rightarrow> KeyManager \<times> FileSystem" where
  "SetKey256 env kid key f1 f2 st =
     (if s256_keys (fst st) (KeyIndex kid f1 f2) \<noteq> None then st
      else
       (let iter = find (\<lambda>elem. snd elem = KeyIndex kid f1 f2) s256_file_id;
            st = (case iter of
                    Some elem \<Rightarrow> WriteKeyToFile env False (fst elem) key st
                  | None \<Rightarrow> st)
        in ((fst st)\<lparr>s256_keys := (s256_keys (fst st))(KeyIndex kid f1 f2 \<mapsto> key)\<rparr>, snd st)))"

section \<open>Concrete stand-ins for running the definitions\<close>

text \<open>
  Modelled from the spec: the hex conversions of \<open>common/hex_util.h\<close>, which is not among
  the sources. The spec says of them only that hex strings are "even-length,
  case-insensitive, decoding to exactly 16 or 32 bytes depending on table/slot width". Two
  hex digits give one byte, most significant digit first, in either case; digits are written
  in lower case. What a string that is too short or holds another character decodes to is
  not fixed by the spec; here the missing digits count as zero. These functions instantiate
  the parameters of \<open>Env\<close> on concrete, well-formed inputs only.
\<close>

definition hex_digit_value :: "char \<Rightarrow> u8" where
  "hex_digit_value c =
     (if (48::nat) \<le> of_char c \<and> of_char c \<le> (57::nat) then of_nat (of_char c - 48)
      else if (97::nat) \<le> of_char c \<and> of_char c \<le> (102::nat) then of_nat (of_char c - 87)
      else if (65::nat) \<le> of_char c \<and> of_char c \<le> (70::nat) then of_nat (of_char c - 55)
      else 0)"

fun hex_to_bytes :: "nat \<Rightarrow> string \<Rightarrow> u8 list" where
  "hex_to_bytes 0 s = []"
| "hex_to_bytes (Suc n) (a # b # s) =
     (push_bit 4 (hex_digit_value a) OR hex_digit_value b) # hex_to_bytes n s"
| "hex_to_bytes (Suc n) s = 0 # hex_to_bytes n []"

definition hex_digit :: "u8 \<Rightarrow> char" where
  "hex_digit d = ''0123456789abcdef'' ! unat d"

definition bytes_to_hex :: "u8 list \<Rightarrow> string" where
  "bytes_to_hex bs = concat (map (\<lambda>b. [hex_digit (drop_bit 4 b), hex_digit (b AND 0xF)]) bs)"

definition test_env :: Env where
  "test_env =
     \<lparr>KeysDir = ''keys'', HactoolDir = ''hactool'', DIR_SEP = ''/'', use_dev_keys = False,
      HexStringToArray16 = hex_to_bytes 16, HexStringToArray32 = hex_to_bytes 32,
      HexArrayToString = bytes_to_hex, can_append = (\<lambda>path. True),
      reload_sees_append = False\<rparr>"

text \<open>
  A stand-in for the block cipher, which is a parameter of the derivation functions. It is
  not AES: each byte is XORed with the first byte of the key and, when decrypting, has one
  added. It keeps the size of its input, which is all the theorems ask of the cipher.
\<close>

definition test_aes :: aes_transform where
  "test_aes key mode op bytes =
     map (\<lambda>b. (b XOR (case key of [] \<Rightarrow> 0 | k # ks \<Rightarrow> k)) + (if op = Decrypt then 1 else 0)) bytes"

text \<open>Stores, files and buffers on which the definitions are run below.\<close>

definition empty_KeyManager :: KeyManager where
  "empty_KeyManager = \<lparr>s128_keys = Map.empty, s256_keys = Map.empty, dev_mode = False\<rparr>"

definition test_store :: KeyManager where
  "test_store =
     \<lparr>s128_keys =
        [KeyIndex Source (u64_of_SourceKeyType SDKEK) 0 \<mapsto> replicate 16 1,
         KeyIndex Source (u64_of_SourceKeyType AESKEKGeneration) 0 \<mapsto> replicate 16 2,
         KeyIndex Source (u64_of_SourceKeyType AESKeyGeneration) 0 \<mapsto> replicate 16 3,
         KeyIndex SDSeed 0 0 \<mapsto> [0, 1, 2, 3, 4, 5, 6, 7, 8, 9, 10, 11, 12, 13, 14, 15],
         KeyIndex Master 0 0 \<mapsto> replicate 16 5],
      s256_keys =
        [KeyIndex SDKeySource (u64_of_SDKeyType Save) 0 \<mapsto> replicate 32 6,
         KeyIndex SDKeySource (u64_of_SDKeyType NCA) 0 \<mapsto> replicate 32 7],
      dev_mode = False\<rparr>"

definition test_store_without128 :: "S128KeyType KeyIndex \<Rightarrow> KeyManager" where
  "test_store_without128 i = test_store\<lparr>s128_keys := (s128_keys test_store)(i := None)\<rparr>"

definition test_store_without256 :: "S256KeyType KeyIndex \<Rightarrow> KeyManager" where
  "test_store_without256 i = test_store\<lparr>s256_keys := (s256_keys test_store)(i := None)\<rparr>"

definition test_sd_keys :: "Key256 list" where
  "test_sd_keys = [replicate 32 0, replicate 32 0]"

definition test_files :: FileSystem where
  "test_files =
     [''keys/prod.keys'' \<mapsto> ''sd_seed = 11111111111111111111111111111111'',
      ''keys/prod.keys_autogenerated'' \<mapsto> ''sd_seed = 22222222222222222222222222222222'']"

definition test_marker :: "u8 list" where
  "test_marker = [1, 2, 3, 4, 5, 6, 7, 8, 9, 10, 11, 12, 13, 14, 15, 16]"

definition test_save :: "u8 list" where
  "test_save =
     [7] @ test_marker @
     [100, 101, 102, 103, 104, 105, 106, 107, 108, 109, 110, 111, 112, 113, 114, 115] @ [3]"

definition test_title_line :: string where
  "test_title_line =
     ''0123456789abcdeffedcba9876543210 = 000102030405060708090a0b0c0d0e0f''"

section \<open>Properties of the key store\<close>

declare combine_loop.simps [simp del] scan_loop.simps [simp del]

lemma SetKey128_occupied:
  "s128_keys km (KeyIndex kid f1 f2) \<noteq> None \<Longrightarrow> SetKey128 env kid key f1 f2 (km, fs) = (km, fs)"
  by (simp add: SetKey128_def)

lemma SetKey256_occupied:
  "s256_keys km (KeyIndex kid f1 f2) \<noteq> None \<Longrightarrow> SetKey256 env kid key f1 f2 (km, fs) = (km, fs)"
  by (simp add: SetKey256_def)

lemma wf_test_store: "wf_KeyManager test_store"
  by (auto simp: wf_KeyManager_def test_store_def split: if_splits)

text \<open>
  Claim C10. For every key index that is not present in the store, \<open>GetKey\<close> returns the
  all-zero value of the right width (16 bytes from the 128-bit store, 32 bytes from the
  256-bit store) instead of failing, and \<open>HasKey\<close> on the same index is false.
\<close>

theorem GetKey_absent_zero:
  "(s128_keys km (KeyIndex kid f1 f2) = None \<longrightarrow>
      \<not> HasKey128 km kid f1 f2 \<and>
      GetKey128 km kid f1 f2 = replicate 16 0 \<and>
      length (GetKey128 km kid f1 f2) = 16 \<and>
      (\<forall>b \<in> set (GetKey128 km kid f1 f2). b = 0)) \<and>
   (s256_keys km (KeyIndex kid' g1 g2) = None \<longrightarrow>
      \<not> HasKey256 km kid' g1 g2 \<and>
      GetKey256 km kid' g1 g2 = replicate 32 0 \<and>
      length (GetKey256 km kid' g1 g2) = 32 \<and>
      (\<forall>b \<in> set (GetKey256 km kid' g1 g2). b = 0))"
  by (simp add: HasKey128_def HasKey256_def GetKey128_def GetKey256_def)

theorem GetKey_absent_zero_witness:
  "s128_keys empty_KeyManager (KeyIndex SDSeed 0 0) = None \<and>
   \<not> HasKey128 empty_KeyManager SDSeed 0 0 \<and>
   GetKey128 empty_KeyManager SDSeed 0 0 = [0, 0, 0, 0, 0, 0, 0, 0, 0, 0, 0, 0, 0, 0, 0, 0] \<and>
   s256_keys empty_KeyManager (KeyIndex Header 0 0) = None \<and>
   \<not> HasKey256 empty_KeyManager Header 0 0 \<and>
   length (GetKey256 empty_KeyManager Header 0 0) = 32"
proof -
  have a: "s128_keys empty_KeyManager (KeyIndex SDSeed 0 0) = None"
    by (simp add: empty_KeyManager_def)
  have b: "s256_keys empty_KeyManager (KeyIndex Header 0 0) = None"
    by (simp add: empty_KeyManager_def)
  have z: "replicate 16 (0::u8) = [0, 0, 0, 0, 0, 0, 0, 0, 0, 0, 0, 0, 0, 0, 0, 0]"
    by (simp add: numeral_eq_Suc)
  from a b GetKey_absent_zero [of empty_KeyManager SDSeed 0 0 Header 0 0]
  show ?thesis unfolding z by blast
qed

text \<open>
  Claim C9. For every key index that is already occupied, \<open>SetKey\<close> with a second value
  changes nothing: the key manager and the files are as before and the index still holds
  the value stored first. This holds for the 128-bit and for the 256-bit store.
\<close>

theorem SetKey_occupied_noop:
  "(s128_keys km (KeyIndex kid f1 f2) = Some v \<longrightarrow>
      SetKey128 env kid key f1 f2 (km, fs) = (km, fs) \<and>
      GetKey128 (fst (SetKey128 env kid key f1 f2 (km, fs))) kid f1 f2 = v) \<and>
   (s256_keys km (KeyIndex kid' g1 g2) = Some v' \<longrightarrow>
      SetKey256 env kid' key' g1 g2 (km, fs) = (km, fs) \<and>
      GetKey256 (fst (SetKey256 env kid' key' g1 g2 (km, fs))) kid' g1 g2 = v')"
  by (simp add: SetKey128_occupied SetKey256_occupied GetKey128_def GetKey256_def
      HasKey128_def HasKey256_def)

theorem SetKey_occupied_noop_witness:
  "s128_keys test_store (KeyIndex SDSeed 0 0) =
     Some [0, 1, 2, 3, 4, 5, 6, 7, 8, 9, 10, 11, 12, 13, 14, 15] \<and>
   SetKey128 test_env SDSeed (replicate 16 0xFF) 0 0 (test_store, test_files) =
     (test_store, test_files) \<and>
   GetKey128 (fst (SetKey128 test_env SDSeed (replicate 16 0xFF) 0 0 (test_store, test_files)))
       SDSeed 0 0 = [0, 1, 2, 3, 4, 5, 6, 7, 8, 9, 10, 11, 12, 13, 14, 15] \<and>
   s256_keys test_store (KeyIndex SDKeySource 1 0) = Some (replicate 32 7) \<and>
   SetKey256 test_env SDKeySource (replicate 32 0xFF) 1 0 (test_store, test_files) =
     (test_store, test_files) \<and>
   GetKey256 (fst (SetKey256 test_env SDKeySource (replicate 32 0xFF) 1 0 (test_store, test_files)))
       SDKeySource 1 0 = replicate 32 7"
proof -
  have a: "s128_keys test_store (KeyIndex SDSeed 0 0) =
     Some [0, 1, 2, 3, 4, 5, 6, 7, 8, 9, 10, 11, 12, 13, 14, 15]"
    by (simp add: test_store_def)
  have b: "s256_keys test_store (KeyIndex SDKeySource 1 0) = Some (replicate 32 7)"
    by (simp add: test_store_def)
  from a b SetKey_occupied_noop
    [of test_store SDSeed 0 0 "[0, 1, 2, 3, 4, 5, 6, 7, 8, 9, 10, 11, 12, 13, 14, 15]"
      test_env "replicate 16 0xFF" test_files SDKeySource 1 0 "replicate 32 7"
      "replicate 32 0xFF"]
  show ?thesis by blast
qed

section \<open>Properties of loading key files\<close>

lemma find_Titlekey: "find (\<lambda>elem. snd elem = KeyIndex Titlekey f1 f2) s128_file_id = None"
  by (simp add: s128_file_id_def)

lemma table_no_Titlekey: "map_of s128_file_id n = Some idx \<Longrightarrow> ktype idx \<noteq> Titlekey"
  by (drule map_of_SomeD) (auto simp: s128_file_id_def)

lemma distinct_s128_file_id: "distinct (map snd s128_file_id)"
  by (simp add: s128_file_id_def)

lemma distinct_s256_file_id: "distinct (map snd s256_file_id)"
  by (simp add: s256_file_id_def)

lemma load_line_title_keeps:
  "ktype i \<noteq> Titlekey \<Longrightarrow> s128_keys (load_line env True km line) i = s128_keys km i"
  by (auto simp: load_line_def Let_def)

lemma foldl_load_line_title_keeps:
  "ktype i \<noteq> Titlekey \<Longrightarrow>
   s128_keys (foldl (load_line env True) km ls) i = s128_keys km i"
  by (induction ls arbitrary: km) (simp_all add: load_line_title_keeps)

lemma AttemptLoadKeyFile_title_keeps:
  "ktype i \<noteq> Titlekey \<Longrightarrow>
   s128_keys (AttemptLoadKeyFile env fs dirA dirB filename True km) i = s128_keys km i"
  by (simp add: AttemptLoadKeyFile_def LoadFromFile_def foldl_load_line_title_keeps
      split: option.splits)

lemma load_line_general_sets:
  "getline_items CHR ''='' [] line = [name, val] \<Longrightarrow>
   map_of s128_file_id (map tolower (remove_spaces name)) = Some idx \<Longrightarrow>
   s128_keys (load_line env False km line) idx = Some (HexStringToArray16 env (remove_spaces val))"
  by (simp add: load_line_def Let_def)

lemma AttemptLoadKeyFile_last_line:
  assumes "fs (dirA @ DIR_SEP env @ filename) = Some contents"
    and "getline_items CHR 0x0A [] contents = ls @ [l]"
    and "getline_items CHR ''='' [] l = [name, val]"
    and "map_of s128_file_id (map tolower (remove_spaces name)) = Some idx"
  shows "s128_keys (AttemptLoadKeyFile env fs dirA dirB filename False km) idx =
           Some (HexStringToArray16 env (remove_spaces val))"
  using assms
  by (simp add: AttemptLoadKeyFile_def Exists_def LoadFromFile_def load_line_general_sets)

lemma KeyManager_ctor_autogenerated:
  assumes "fs (KeysDir env @ DIR_SEP env @
             (if use_dev_keys env then ''dev.keys_autogenerated''
              else ''prod.keys_autogenerated'')) = Some contents"
    and "getline_items CHR 0x0A [] contents = ls @ [l]"
    and "getline_items CHR ''='' [] l = [name, val]"
    and "map_of s128_file_id (map tolower (remove_spaces name)) = Some idx"
  shows "s128_keys (KeyManager_ctor env fs) idx = Some (HexStringToArray16 env (remove_spaces val))"
proof -
  have nt: "ktype idx \<noteq> Titlekey" using assms(4) by (rule table_no_Titlekey)
  show ?thesis
  proof (cases "use_dev_keys env")
    case True
    with assms(1)
    have f: "fs (KeysDir env @ DIR_SEP env @ ''dev.keys_autogenerated'') = Some contents"
      by simp
    show ?thesis
      using True
      by (simp add: KeyManager_ctor_def Let_def AttemptLoadKeyFile_title_keeps [OF nt]
          AttemptLoadKeyFile_last_line
            [where fs = fs and env = env and dirA = "KeysDir env"
               and filename = "''dev.keys_autogenerated''",
              OF f assms(2) assms(3) assms(4)])
  next
    case False
    with assms(1)
    have f: "fs (KeysDir env @ DIR_SEP env @ ''prod.keys_autogenerated'') = Some contents"
      by simp
    show ?thesis
      using False
      by (simp add: KeyManager_ctor_def Let_def AttemptLoadKeyFile_title_keeps [OF nt]
          AttemptLoadKeyFile_last_line
            [where fs = fs and env = env and dirA = "KeysDir env"
               and filename = "''prod.keys_autogenerated''",
              OF f assms(2) assms(3) assms(4)])
  qed
qed

text \<open>
  Claim C1, as amended. The claim says that an insertion into an occupied slot is a no-op
  also while key files are loaded, so that the autogenerated key file never replaces a key
  of the base key file. \<open>LoadFromFile\<close> assigns with \<open>s128_keys[...] = key\<close>, which replaces
  the stored value. What holds: the store has at most one value per key index (it is a map);
  \<open>SetKey\<close> on an occupied index changes nothing; a line of a key file that names a 128-bit
  key stores its value whatever the index held before; and after the constructor has run, an
  index named by the last line of the autogenerated key file holds the value of that line,
  whatever the base key file provided.
\<close>

theorem SetKey_keeps_load_replaces:
  "(s128_keys km (KeyIndex kid f1 f2) \<noteq> None \<longrightarrow>
      SetKey128 env kid key f1 f2 (km, fs) = (km, fs)) \<and>
   (s256_keys km (KeyIndex kid' g1 g2) \<noteq> None \<longrightarrow>
      SetKey256 env kid' key' g1 g2 (km, fs) = (km, fs)) \<and>
   (getline_items CHR ''='' [] line = [name, val] \<and>
    map_of s128_file_id (map tolower (remove_spaces name)) = Some idx \<longrightarrow>
      s128_keys (load_line env False km line) idx =
        Some (HexStringToArray16 env (remove_spaces val))) \<and>
   (fs (KeysDir env @ DIR_SEP env @
          (if use_dev_keys env then ''dev.keys_autogenerated''
           else ''prod.keys_autogenerated'')) = Some contents \<and>
    getline_items CHR 0x0A [] contents = ls @ [line] \<and>
    getline_items CHR ''='' [] line = [name, val] \<and>
    map_of s128_file_id (map tolower (remove_spaces name)) = Some idx \<longrightarrow>
      s128_keys (KeyManager_ctor env fs) idx =
        Some (HexStringToArray16 env (remove_spaces val)))"
  using SetKey128_occupied [of km kid f1 f2 env key fs]
    SetKey256_occupied [of km kid' g1 g2 env key' fs]
    load_line_general_sets [of line name val idx env km]
    KeyManager_ctor_autogenerated [of fs env contents ls line name val idx]
  by blast

theorem SetKey_keeps_load_replaces_witness:
  "s128_keys test_store (KeyIndex SDSeed 0 0) \<noteq> None \<and>
   SetKey128 test_env SDSeed (replicate 16 0xFF) 0 0 (test_store, test_files) =
     (test_store, test_files) \<and>
   s256_keys test_store (KeyIndex SDKeySource 1 0) \<noteq> None \<and>
   SetKey256 test_env SDKeySource (replicate 32 0xFF) 1 0 (test_store, test_files) =
     (test_store, test_files) \<and>
   test_files (KeysDir test_env @ DIR_SEP test_env @
      (if use_dev_keys test_env then ''dev.keys_autogenerated'' else ''prod.keys_autogenerated''))
     = Some ''sd_seed = 22222222222222222222222222222222'' \<and>
   getline_items CHR 0x0A [] ''sd_seed = 22222222222222222222222222222222'' =
     [] @ [''sd_seed = 22222222222222222222222222222222''] \<and>
   getline_items CHR ''='' [] ''sd_seed = 22222222222222222222222222222222'' =
     [''sd_seed '', '' 22222222222222222222222222222222''] \<and>
   map_of s128_file_id (map tolower (remove_spaces ''sd_seed '')) = Some (KeyIndex SDSeed 0 0) \<and>
   s128_keys (load_line test_env False test_store ''sd_seed = 22222222222222222222222222222222'')
     (KeyIndex SDSeed 0 0) = Some (replicate 16 0x22) \<and>
   s128_keys (KeyManager_ctor test_env test_files) (KeyIndex SDSeed 0 0) =
     Some (replicate 16 0x22)"
proof -
  let ?line = "''sd_seed = 22222222222222222222222222222222''"
  have a: "s128_keys test_store (KeyIndex SDSeed 0 0) \<noteq> None" by (simp add: test_store_def)
  have b: "s256_keys test_store (KeyIndex SDKeySource 1 0) \<noteq> None" by (simp add: test_store_def)
  have p: "test_files (KeysDir test_env @ DIR_SEP test_env @
      (if use_dev_keys test_env then ''dev.keys_autogenerated'' else ''prod.keys_autogenerated''))
     = Some ?line"
    by (simp add: test_env_def test_files_def)
  have l: "getline_items CHR 0x0A [] ?line = [] @ [?line]" by code_simp
  have i: "getline_items CHR ''='' [] ?line = [''sd_seed '', '' 22222222222222222222222222222222'']"
    by code_simp
  have m: "map_of s128_file_id (map tolower (remove_spaces ''sd_seed '')) = Some (KeyIndex SDSeed 0 0)"
    by code_simp
  have v: "HexStringToArray16 test_env (remove_spaces '' 22222222222222222222222222222222'') =
      replicate 16 0x22"
    by code_simp
  note t = SetKey_keeps_load_replaces
    [of test_store SDSeed 0 0 test_env "replicate 16 0xFF" test_files SDKeySource 1 0
      "replicate 32 0xFF" ?line "''sd_seed ''" "'' 22222222222222222222222222222222''"
      "KeyIndex SDSeed 0 0" ?line "[]"]
  from t a b p l i m show ?thesis unfolding v by blast
qed

text \<open>
  The claim as it was stated fails on these files: the base key file \<open>prod.keys\<close> provides
  \<open>sd_seed\<close> as sixteen bytes \<open>0x11\<close>, the autogenerated key file provides it as sixteen bytes
  \<open>0x22\<close>, and after the constructor has loaded both the store holds the latter.
\<close>

theorem autogenerated_overwrites_base:
  "HasKey128
     (AttemptLoadKeyFile test_env test_files ''keys'' ''hactool'' ''prod.keys'' False
        empty_KeyManager) SDSeed 0 0 \<and>
   GetKey128
     (AttemptLoadKeyFile test_env test_files ''keys'' ''hactool'' ''prod.keys'' False
        empty_KeyManager) SDSeed 0 0
     = replicate 16 0x11 \<and>
   GetKey128 (KeyManager_ctor test_env test_files) SDSeed 0 0 = replicate 16 0x22"
  by code_simp

section \<open>Properties of title keys\<close>

lemma ucast_low_byte: "(ucast (ucast (b::u8) OR push_bit 8 (x::u64) :: u64) :: u8) = b"
  by (rule bit_word_eqI) (auto simp: bit_simps)

lemma load_u64_bound: "bit (load_u64 bs) n \<Longrightarrow> n < 8 * length bs"
proof (induction bs arbitrary: n)
  case Nil
  then show ?case by simp
next
  case (Cons b bs)
  from Cons.prems have "bit b n \<or> (8 \<le> n \<and> bit (load_u64 bs) (n - 8))"
    by (auto simp: bit_simps)
  then show ?case
  proof
    assume "bit b n"
    then have "n < 8" by (auto dest: bit_imp_le_length)
    then show ?thesis by simp
  next
    assume a: "8 \<le> n \<and> bit (load_u64 bs) (n - 8)"
    then have "n - 8 < 8 * length bs" by (auto dest: Cons.IH)
    with a show ?thesis by simp
  qed
qed

lemma drop_low_byte:
  "length bs \<le> 7 \<Longrightarrow> drop_bit 8 (ucast (b::u8) OR push_bit 8 (load_u64 bs)) = load_u64 bs"
  apply (rule bit_word_eqI)
  apply (auto simp: bit_simps dest: load_u64_bound bit_imp_le_length)
  done

lemma store_load_gen: "length bs = n \<Longrightarrow> n \<le> 8 \<Longrightarrow> store_u64 n (load_u64 bs) = bs"
proof (induction bs arbitrary: n)
  case Nil
  then show ?case by simp
next
  case (Cons b bs)
  then obtain m where n: "n = Suc m" by (cases n) auto
  with Cons.prems have m: "length bs = m" "m \<le> 8" "length bs \<le> 7" by auto
  show ?case
    unfolding n
    by (simp only: store_u64.simps load_u64.simps ucast_low_byte drop_low_byte [OF m(3)]
        Cons.IH [OF m(1) m(2)])
qed

lemma store_load_u64: "length bs = 8 \<Longrightarrow> store_u64 8 (load_u64 bs) = bs"
  by (rule store_load_gen) simp_all

lemma rights_id_roundtrip:
  "length raw = 16 \<Longrightarrow>
   rights_id_of_fields (memcpy_u128 raw ! 1) (memcpy_u128 raw ! 0) = raw"
proof -
  assume len: "length raw = 16"
  have a: "store_u64 8 (load_u64 (take 8 raw)) = take 8 raw"
    by (rule store_load_u64) (simp add: len)
  have b: "store_u64 8 (load_u64 (take 8 (drop 8 raw))) = take 8 (drop 8 raw)"
    by (rule store_load_u64) (simp add: len)
  have "take 8 (drop 8 raw) = drop 8 raw"
    using len by simp
  then have "take 8 raw @ take 8 (drop 8 raw) = raw"
    by simp
  then show ?thesis
    by (simp add: rights_id_of_fields_def memcpy_u128_def a b)
qed

lemma load_line_title_sets:
  "getline_items CHR ''='' [] line = [name, val] \<Longrightarrow>
   s128_keys (load_line env True km line)
     (KeyIndex Titlekey (memcpy_u128 (HexStringToArray16 env (remove_spaces name)) ! 1)
        (memcpy_u128 (HexStringToArray16 env (remove_spaces name)) ! 0)) =
     Some (HexStringToArray16 env (remove_spaces val))"
  by (simp add: load_line_def Let_def)

lemma WriteKeyToFile_files:
  "can_append env (KeysDir env @ DIR_SEP env @ ''title.keys_autogenerated'') \<Longrightarrow>
   snd (WriteKeyToFile env True keyname key (km, fs))
     (KeysDir env @ DIR_SEP env @ ''title.keys_autogenerated'') =
   Some ((case fs (KeysDir env @ DIR_SEP env @ ''title.keys_autogenerated'') of
            None \<Rightarrow> [] | Some contents \<Rightarrow> contents) @
         (if Exists fs (KeysDir env @ DIR_SEP env @ ''title.keys_autogenerated'')
          then [] else info_text) @
         [CHR 0x0A] @ keyname @ '' = '' @ HexArrayToString env key)"
  by (simp add: WriteKeyToFile_def Let_def)

lemma SetKey128_Titlekey_files:
  "s128_keys km (KeyIndex Titlekey f1 f2) = None \<Longrightarrow>
   snd (SetKey128 env Titlekey key f1 f2 (km, fs)) =
   snd (WriteKeyToFile env True (HexArrayToString env (rights_id_of_fields f1 f2)) key (km, fs))"
  by (simp add: SetKey128_def Let_def find_Titlekey)

text \<open>
  Claim C8. Let a title-key line have the name \<open>R\<close>, a rights identifier that
  \<open>HexStringToArray<16>\<close> decodes to the sixteen bytes \<open>raw\<close>. Loading the line stores the
  key at the \<open>Titlekey\<close> index whose \<open>field1\<close> and \<open>field2\<close> are the two 64-bit halves of
  \<open>raw\<close>. \<open>SetKey\<close> on that index rebuilds exactly \<open>raw\<close> from the two fields, and the line
  it appends to the autogenerated title-key file is named by the hex string of \<open>raw\<close>, which
  is \<open>R\<close> itself whenever \<open>HexArrayToString\<close> inverts \<open>HexStringToArray<16>\<close> on \<open>R\<close>. The two
  halves are therefore not swapped between loading and writing.
\<close>

theorem titlekey_rights_id_roundtrip:
  assumes items: "getline_items CHR ''='' [] line = [name, val]"
    and R: "R = remove_spaces name"
    and raw: "raw = HexStringToArray16 env R"
    and len: "length raw = 16"
    and f1: "f1 = memcpy_u128 raw ! 1" and f2: "f2 = memcpy_u128 raw ! 0"
    and path: "path = KeysDir env @ DIR_SEP env @ ''title.keys_autogenerated''"
  shows "s128_keys (load_line env True km line) (KeyIndex Titlekey f1 f2) =
           Some (HexStringToArray16 env (remove_spaces val)) \<and>
         rights_id_of_fields f1 f2 = raw \<and>
         (s128_keys km' (KeyIndex Titlekey f1 f2) = None \<and> can_append env path \<longrightarrow>
            snd (SetKey128 env Titlekey key f1 f2 (km', fs)) path =
              Some ((case fs path of None \<Rightarrow> [] | Some contents \<Rightarrow> contents) @
                    (if Exists fs path then [] else info_text) @
                    [CHR 0x0A] @ HexArrayToString env raw @ '' = '' @ HexArrayToString env key)) \<and>
         (HexArrayToString env raw = R \<longrightarrow>
            HexArrayToString env (rights_id_of_fields f1 f2) = R)"
proof -
  have rt: "rights_id_of_fields f1 f2 = raw"
    unfolding f1 f2 using len by (rule rights_id_roundtrip)
  have parse: "s128_keys (load_line env True km line) (KeyIndex Titlekey f1 f2) =
           Some (HexStringToArray16 env (remove_spaces val))"
    unfolding f1 f2 raw R using items by (rule load_line_title_sets)
  have ser: "snd (SetKey128 env Titlekey key f1 f2 (km', fs)) path =
              Some ((case fs path of None \<Rightarrow> [] | Some contents \<Rightarrow> contents) @
                    (if Exists fs path then [] else info_text) @
                    [CHR 0x0A] @ HexArrayToString env raw @ '' = '' @ HexArrayToString env key)"
    if "s128_keys km' (KeyIndex Titlekey f1 f2) = None" "can_append env path"
    using that unfolding path
    by (simp only: SetKey128_Titlekey_files WriteKeyToFile_files rt)
  from rt parse ser show ?thesis by simp
qed

theorem titlekey_rights_id_roundtrip_witness:
  "getline_items CHR ''='' [] test_title_line =
     [''0123456789abcdeffedcba9876543210 '', '' 000102030405060708090a0b0c0d0e0f''] \<and>
   length (hex_to_bytes 16 ''0123456789abcdeffedcba9876543210'') = 16 \<and>
   s128_keys (load_line test_env True empty_KeyManager test_title_line)
     (KeyIndex Titlekey 0x1032547698BADCFE 0xEFCDAB8967452301) =
     Some [0, 1, 2, 3, 4, 5, 6, 7, 8, 9, 10, 11, 12, 13, 14, 15] \<and>
   rights_id_of_fields 0x1032547698BADCFE 0xEFCDAB8967452301 =
     hex_to_bytes 16 ''0123456789abcdeffedcba9876543210'' \<and>
   snd (SetKey128 test_env Titlekey [0, 1, 2, 3, 4, 5, 6, 7, 8, 9, 10, 11, 12, 13, 14, 15]
          0x1032547698BADCFE 0xEFCDAB8967452301 (empty_KeyManager, Map.empty))
     ''keys/title.keys_autogenerated'' =
     Some (info_text @ [CHR 0x0A] @
           ''0123456789abcdeffedcba9876543210 = 000102030405060708090a0b0c0d0e0f'') \<and>
   bytes_to_hex (rights_id_of_fields 0x1032547698BADCFE 0xEFCDAB8967452301) =
     ''0123456789abcdeffedcba9876543210''"
proof -
  let ?R = "''0123456789abcdeffedcba9876543210''"
  let ?raw = "hex_to_bytes 16 ?R"
  let ?key = "[0, 1, 2, 3, 4, 5, 6, 7, 8, 9, 10, 11, 12, 13, 14, 15] :: u8 list"
  have items: "getline_items CHR ''='' [] test_title_line =
     [''0123456789abcdeffedcba9876543210 '', '' 000102030405060708090a0b0c0d0e0f'']"
    by code_simp
  have R: "?R = remove_spaces ''0123456789abcdeffedcba9876543210 ''" by code_simp
  have raw: "?raw = HexStringToArray16 test_env ?R" by (simp add: test_env_def)
  have len: "length ?raw = 16" by code_simp
  have f1: "(0x1032547698BADCFE :: u64) = memcpy_u128 ?raw ! 1" by code_simp
  have f2: "(0xEFCDAB8967452301 :: u64) = memcpy_u128 ?raw ! 0" by code_simp
  have path: "''keys/title.keys_autogenerated'' =
      KeysDir test_env @ DIR_SEP test_env @ ''title.keys_autogenerated''"
    by (simp add: test_env_def)
  have absent:
    "s128_keys empty_KeyManager (KeyIndex Titlekey 0x1032547698BADCFE 0xEFCDAB8967452301) = None"
    by (simp add: empty_KeyManager_def)
  have app: "can_append test_env ''keys/title.keys_autogenerated''" by (simp add: test_env_def)
  have val: "HexStringToArray16 test_env (remove_spaces '' 000102030405060708090a0b0c0d0e0f'') = ?key"
    by code_simp
  have enc: "HexArrayToString test_env ?raw = ?R" by code_simp
  have ex: "\<not> Exists Map.empty ''keys/title.keys_autogenerated''" by (simp add: Exists_def)
  have enc2: "HexArrayToString test_env = bytes_to_hex" by (simp add: test_env_def)
  note t = titlekey_rights_id_roundtrip
    [OF items R raw len f1 f2 path, of empty_KeyManager empty_KeyManager ?key Map.empty]
  from t absent app have
    "s128_keys (load_line test_env True empty_KeyManager test_title_line)
       (KeyIndex Titlekey 0x1032547698BADCFE 0xEFCDAB8967452301) =
       Some (HexStringToArray16 test_env (remove_spaces '' 000102030405060708090a0b0c0d0e0f''))"
    and "rights_id_of_fields 0x1032547698BADCFE 0xEFCDAB8967452301 = ?raw"
    and "snd (SetKey128 test_env Titlekey ?key
          0x1032547698BADCFE 0xEFCDAB8967452301 (empty_KeyManager, Map.empty))
        ''keys/title.keys_autogenerated'' =
        Some ((case Map.empty ''keys/title.keys_autogenerated'' of None \<Rightarrow> []
                | Some contents \<Rightarrow> contents) @
              (if Exists Map.empty ''keys/title.keys_autogenerated'' then [] else info_text) @
              [CHR 0x0A] @ HexArrayToString test_env ?raw @ '' = '' @
              HexArrayToString test_env ?key)"
    and "HexArrayToString test_env (rights_id_of_fields 0x1032547698BADCFE 0xEFCDAB8967452301) = ?R"
    using enc by blast+
  moreover have "bytes_to_hex ?key = ''000102030405060708090a0b0c0d0e0f''" by code_simp
  moreover have "bytes_to_hex ?raw = ?R" by code_simp
  ultimately show ?thesis
    unfolding val enc2 using items len ex by simp
qed

section \<open>Properties of the derivation engine\<close>

subsection \<open>The key-encryption-key chain\<close>

lemma keeps_size_test_aes: "keeps_size test_aes"
  by (simp add: keeps_size_def test_aes_def)

lemma Transcode_whole:
  "keeps_size aes \<Longrightarrow> length dest \<le> length src \<Longrightarrow>
   Transcode aes c src (length src) dest op = aes (cipher_key c) (cipher_mode c) op src"
  by (simp add: Transcode_def buf_write_def keeps_size_def)

text \<open>
  Claim C4. For all 16-byte \<open>source\<close>, \<open>master\<close>, \<open>kek_seed\<close> and \<open>key_seed\<close>, and a cipher
  that writes as many bytes as it reads, \<open>GenerateKeyEncryptionKey\<close> is the three-stage
  chain: ECB-decrypt \<open>kek_seed\<close> under \<open>master\<close>, ECB-decrypt \<open>source\<close> under the result, and
  ECB-decrypt \<open>key_seed\<close> under that unless \<open>key_seed\<close> is all zero, in which case the second
  result is returned.
\<close>

theorem GenerateKeyEncryptionKey_chain:
  assumes "keeps_size aes"
    and "length source = 16" and "length master = 16"
    and "length kek_seed = 16" and "length key_seed = 16"
  shows "GenerateKeyEncryptionKey aes source master kek_seed key_seed =
         kek_chain_spec aes source master kek_seed key_seed"
  using assms
  by (simp add: GenerateKeyEncryptionKey_def kek_chain_spec_def Let_def Transcode_def
      buf_write_def unwrap_def keeps_size_def)

theorem GenerateKeyEncryptionKey_chain_witness:
  "keeps_size test_aes \<and>
   GenerateKeyEncryptionKey test_aes (replicate 16 1) (replicate 16 5) (replicate 16 2)
       (replicate 16 32)
     = kek_chain_spec test_aes (replicate 16 1) (replicate 16 5) (replicate 16 2)
         (replicate 16 32) \<and>
   kek_chain_spec test_aes (replicate 16 1) (replicate 16 5) (replicate 16 2) (replicate 16 32)
     = replicate 16 43 \<and>
   GenerateKeyEncryptionKey test_aes (replicate 16 1) (replicate 16 5) (replicate 16 2)
       (replicate 16 0)
     = kek_chain_spec test_aes (replicate 16 1) (replicate 16 5) (replicate 16 2)
         (replicate 16 0) \<and>
   kek_chain_spec test_aes (replicate 16 1) (replicate 16 5) (replicate 16 2) (replicate 16 0)
     = replicate 16 10"
proof -
  have l: "length (replicate 16 (x::u8)) = 16" for x by simp
  have a: "GenerateKeyEncryptionKey test_aes (replicate 16 1) (replicate 16 5) (replicate 16 2)
       (replicate 16 32)
     = kek_chain_spec test_aes (replicate 16 1) (replicate 16 5) (replicate 16 2)
         (replicate 16 32)"
    by (rule GenerateKeyEncryptionKey_chain [OF keeps_size_test_aes l l l l])
  have b: "GenerateKeyEncryptionKey test_aes (replicate 16 1) (replicate 16 5) (replicate 16 2)
       (replicate 16 0)
     = kek_chain_spec test_aes (replicate 16 1) (replicate 16 5) (replicate 16 2)
         (replicate 16 0)"
    by (rule GenerateKeyEncryptionKey_chain [OF keeps_size_test_aes l l l l])
  have c: "kek_chain_spec test_aes (replicate 16 1) (replicate 16 5) (replicate 16 2)
       (replicate 16 32) = replicate 16 43"
    by code_simp
  have d: "kek_chain_spec test_aes (replicate 16 1) (replicate 16 5) (replicate 16 2)
       (replicate 16 0) = replicate 16 10"
    by code_simp
  from keeps_size_test_aes a b c d show ?thesis by blast
qed

subsection \<open>The seed scan\<close>

lemma scan_loop_finds:
  "offset \<le> p \<Longrightarrow> p + 16 < length save \<Longrightarrow> take 16 (drop p save) = marker \<Longrightarrow>
   length buffer = 16 \<Longrightarrow>
   offset \<le> scan_loop save marker buffer offset \<and>
   scan_loop save marker buffer offset \<le> p \<and>
   take 16 (drop (scan_loop save marker buffer offset) save) = marker \<and>
   (\<forall>j. offset \<le> j \<and> j < scan_loop save marker buffer offset \<longrightarrow>
        take 16 (drop j save) \<noteq> marker)"
proof (induction save marker buffer offset rule: scan_loop.induct)
  case (1 save marker buffer offset)
  have lt: "offset + 0x10 < length save" using "1.prems" by simp
  have rb: "fst (ReadBytes save offset buffer 0x10) = take 16 (drop offset save)"
    using lt "1.prems"(4) by (simp add: ReadBytes_def buf_write_def Let_def)
  show ?case
  proof (cases "take 16 (drop offset save) = marker")
    case True
    then have "scan_loop save marker buffer offset = offset"
      using lt rb by (subst scan_loop.simps) (simp add: Let_def)
    then show ?thesis using True "1.prems"(1) by auto
  next
    case False
    then have eq: "scan_loop save marker buffer offset =
        scan_loop save marker (take 16 (drop offset save)) (offset + 1)"
      using lt rb by (subst scan_loop.simps) (simp add: Let_def)
    have ne: "offset \<noteq> p" using False "1.prems"(3) by auto
    then have le: "offset + 1 \<le> p" using "1.prems"(1) by simp
    have len: "length (take 16 (drop offset save)) = 16" using lt by simp
    have ih:
      "offset + 1 \<le> scan_loop save marker (take 16 (drop offset save)) (offset + 1) \<and>
       scan_loop save marker (take 16 (drop offset save)) (offset + 1) \<le> p \<and>
       take 16 (drop (scan_loop save marker (take 16 (drop offset save)) (offset + 1)) save)
         = marker \<and>
       (\<forall>j. offset + 1 \<le> j \<and>
            j < scan_loop save marker (take 16 (drop offset save)) (offset + 1) \<longrightarrow>
            take 16 (drop j save) \<noteq> marker)"
      by (rule "1.IH" [OF lt rb [symmetric] False le "1.prems"(2) "1.prems"(3) len])
    have below: "take 16 (drop j save) \<noteq> marker"
      if j: "offset \<le> j \<and> j < scan_loop save marker (take 16 (drop offset save)) (offset + 1)"
      for j
    proof (cases "j = offset")
      case True
      with False show ?thesis by simp
    next
      case False
      with j have "offset + 1 \<le> j" by simp
      with ih j show ?thesis by simp
    qed
    from ih have "offset \<le> scan_loop save marker (take 16 (drop offset save)) (offset + 1)"
      by simp
    with ih below show ?thesis
      unfolding eq by simp
  qed
qed

text \<open>
  Claim C7. Let the save blob hold the 16-byte marker (the first sixteen bytes of the
  \<open>private\<close> file) at an offset \<open>p\<close> with at least sixteen bytes after it. Then
  \<open>DeriveSDSeed\<close> stops at the first offset \<open>q\<close> at which the marker occurs, scanning from
  offset 0 in steps of one, and returns exactly the sixteen bytes at \<open>q + 16\<close>. In particular
  \<open>q = p\<close> when the marker does not occur before \<open>p\<close>.
\<close>

theorem DeriveSDSeed_first_marker:
  assumes priv: "16 \<le> length priv"
    and room: "p + 32 \<le> length save"
    and hit: "take 16 (drop p save) = take 16 priv"
  shows "\<exists>q \<le> p.
           take 16 (drop q save) = take 16 priv \<and>
           (\<forall>j < q. take 16 (drop j save) \<noteq> take 16 priv) \<and>
           DeriveSDSeed (Some save) (Some priv) = Some (take 16 (drop (q + 16) save)) \<and>
           length (take 16 (drop (q + 16) save)) = 16"
proof -
  let ?marker = "take 16 priv"
  let ?q = "scan_loop save ?marker (replicate 16 0) 0"
  have rd: "ReadBytes priv 0 (replicate 16 0) 0x10 = (?marker, 16)"
    using priv by (simp add: ReadBytes_def buf_write_def Let_def)
  have p: "p + 16 < length save" using room by simp
  have f: "0 \<le> ?q \<and> ?q \<le> p \<and> take 16 (drop ?q save) = ?marker \<and>
        (\<forall>j. 0 \<le> j \<and> j < ?q \<longrightarrow> take 16 (drop j save) \<noteq> ?marker)"
    by (rule scan_loop_finds [OF _ p hit]) simp_all
  then have q: "?q \<le> p" by simp
  then have q32: "?q + 32 \<le> length save" using room by simp
  have seed: "fst (ReadBytes save (?q + 0x10) (replicate 16 0) 0x10) =
      take 16 (drop (?q + 16) save)"
    using q32 by (simp add: ReadBytes_def buf_write_def Let_def)
  have res: "DeriveSDSeed (Some save) (Some priv) = Some (take 16 (drop (?q + 16) save))"
    using q32 seed by (simp add: DeriveSDSeed_def rd Let_def)
  have "length (take 16 (drop (?q + 16) save)) = 16" using q32 by simp
  with f res q show ?thesis by (intro exI [of _ ?q]) simp
qed

theorem DeriveSDSeed_first_marker_witness:
  "(16::nat) \<le> length test_marker \<and> 1 + 32 \<le> length test_save \<and>
   take 16 (drop 1 test_save) = take 16 test_marker \<and>
   (\<exists>q \<le> 1.
       take 16 (drop q test_save) = take 16 test_marker \<and>
       (\<forall>j < q. take 16 (drop j test_save) \<noteq> take 16 test_marker) \<and>
       DeriveSDSeed (Some test_save) (Some test_marker) =
         Some (take 16 (drop (q + 16) test_save)) \<and>
       length (take 16 (drop (q + 16) test_save)) = 16) \<and>
   DeriveSDSeed (Some test_save) (Some test_marker) =
     Some [100, 101, 102, 103, 104, 105, 106, 107, 108, 109, 110, 111, 112, 113, 114, 115]"
proof -
  have a: "(16::nat) \<le> length test_marker" by (simp add: test_marker_def)
  have b: "1 + 32 \<le> length test_save" by (simp add: test_save_def test_marker_def)
  have c: "take 16 (drop 1 test_save) = take 16 test_marker"
    by (simp add: test_save_def test_marker_def)
  have d: "DeriveSDSeed (Some test_save) (Some test_marker) =
     Some [100, 101, 102, 103, 104, 105, 106, 107, 108, 109, 110, 111, 112, 113, 114, 115]"
    by code_simp
  from a b c d DeriveSDSeed_first_marker [OF a b c] show ?thesis by blast
qed

text \<open>
  Claim C3. The claim says that \<open>DeriveSDSeed\<close> returns a seed only when all sixteen seed
  bytes after the marker exist in the save blob. The code rejects a match only when
  \<open>offset + 0x10 >= size\<close>, that is when no byte at all follows the marker, and it does not
  look at what the read of the seed returns (the read of the marker is checked against
  \<open>0x10\<close>). On a blob of 17 bytes, the marker followed by the single byte \<open>0xAA\<close>, the code
  returns a seed: that byte and the fifteen zero bytes the array was initialised with.
\<close>

theorem DeriveSDSeed_short_seed:
  "DeriveSDSeed
     (Some [1, 2, 3, 4, 5, 6, 7, 8, 9, 10, 11, 12, 13, 14, 15, 16, 0xAA])
     (Some [1, 2, 3, 4, 5, 6, 7, 8, 9, 10, 11, 12, 13, 14, 15, 16]) =
   Some [0xAA, 0, 0, 0, 0, 0, 0, 0, 0, 0, 0, 0, 0, 0, 0, 0]"
  by code_simp

subsection \<open>The storage keys\<close>

lemma and_15_mod: "(i::nat) AND 0xF = i mod 16"
  using take_bit_eq_mask [of 4 i] by (simp add: take_bit_eq_mod mask_eq_exp_minus_1)

lemma combine_loop_gen:
  "i \<le> length source \<Longrightarrow>
   combine_loop i source sd_seed =
     take i source @ map (\<lambda>j. source ! j XOR sd_seed ! (j mod 16)) [i..<length source]"
proof (induction i source sd_seed rule: combine_loop.induct)
  case (1 i source sd_seed)
  show ?case
  proof (cases "i < length source")
    case True
    let ?s = "source[i := source ! i XOR sd_seed ! (i AND 0xF)]"
    have ih: "combine_loop (Suc i) ?s sd_seed =
        take (Suc i) ?s @ map (\<lambda>j. ?s ! j XOR sd_seed ! (j mod 16)) [Suc i..<length ?s]"
      using "1.IH" [OF True] True by simp
    have a: "take (Suc i) ?s = take i source @ [source ! i XOR sd_seed ! (i mod 16)]"
      using True by (simp add: take_Suc_conv_app_nth and_15_mod)
    have b: "map (\<lambda>j. ?s ! j XOR sd_seed ! (j mod 16)) [Suc i..<length ?s] =
             map (\<lambda>j. source ! j XOR sd_seed ! (j mod 16)) [Suc i..<length source]"
      by (rule map_cong) auto
    have c: "[i..<length source] = i # [Suc i..<length source]"
      using True by (simp add: upt_conv_Cons)
    have "combine_loop i source sd_seed = combine_loop (Suc i) ?s sd_seed"
      using True by (subst combine_loop.simps) simp
    then show ?thesis
      by (simp only: ih a b c append_assoc append_Cons append_Nil list.map)
  next
    case False
    with "1.prems" show ?thesis by (subst combine_loop.simps) simp
  qed
qed

lemma combine_loop_xor: "combine_loop 0 source sd_seed = xor_with_seed sd_seed source"
  using combine_loop_gen [of 0 source sd_seed] by (simp add: xor_with_seed_def)

lemma length_xor_with_seed: "length (xor_with_seed seed source) = length source"
  by (simp add: xor_with_seed_def)

lemma GetKey256_length:
  "wf_KeyManager keys \<Longrightarrow> HasKey256 keys kid f1 f2 \<Longrightarrow> length (GetKey256 keys kid f1 f2) = 32"
  by (auto simp: wf_KeyManager_def HasKey256_def GetKey256_def)

lemma DeriveSDKeys_no_SDKEK:
  "\<not> HasKey128 keys Source (u64_of_SourceKeyType SDKEK) 0 \<Longrightarrow>
   fst (DeriveSDKeys aes sd_keys keys) = ErrorMissingSDKEKSource"
  by (simp add: DeriveSDKeys_def Let_def)

lemma DeriveSDKeys_no_AESKEKGeneration:
  "HasKey128 keys Source (u64_of_SourceKeyType SDKEK) 0 \<Longrightarrow>
   \<not> HasKey128 keys Source (u64_of_SourceKeyType AESKEKGeneration) 0 \<Longrightarrow>
   fst (DeriveSDKeys aes sd_keys keys) = ErrorMissingAESKEKGenerationSource"
  by (simp add: DeriveSDKeys_def Let_def)

lemma DeriveSDKeys_no_AESKeyGeneration:
  "HasKey128 keys Source (u64_of_SourceKeyType SDKEK) 0 \<Longrightarrow>
   HasKey128 keys Source (u64_of_SourceKeyType AESKEKGeneration) 0 \<Longrightarrow>
   \<not> HasKey128 keys Source (u64_of_SourceKeyType AESKeyGeneration) 0 \<Longrightarrow>
   fst (DeriveSDKeys aes sd_keys keys) = ErrorMissingAESKeyGenerationSource"
  by (simp add: DeriveSDKeys_def Let_def)

lemma DeriveSDKeys_no_SDSeed:
  "HasKey128 keys Source (u64_of_SourceKeyType SDKEK) 0 \<Longrightarrow>
   HasKey128 keys Source (u64_of_SourceKeyType AESKEKGeneration) 0 \<Longrightarrow>
   HasKey128 keys Source (u64_of_SourceKeyType AESKeyGeneration) 0 \<Longrightarrow>
   \<not> HasKey128 keys SDSeed 0 0 \<Longrightarrow>
   fst (DeriveSDKeys aes sd_keys keys) = ErrorMissingSDSeed"
  by (simp add: DeriveSDKeys_def Let_def)

lemma DeriveSDKeys_no_Save:
  "HasKey128 keys Source (u64_of_SourceKeyType SDKEK) 0 \<Longrightarrow>
   HasKey128 keys Source (u64_of_SourceKeyType AESKEKGeneration) 0 \<Longrightarrow>
   HasKey128 keys Source (u64_of_SourceKeyType AESKeyGeneration) 0 \<Longrightarrow>
   HasKey128 keys SDSeed 0 0 \<Longrightarrow>
   \<not> HasKey256 keys SDKeySource (u64_of_SDKeyType Save) 0 \<Longrightarrow>
   fst (DeriveSDKeys aes sd_keys keys) = ErrorMissingSDSaveKeySource"
  by (simp add: DeriveSDKeys_def Let_def)

lemma DeriveSDKeys_no_NCA:
  "HasKey128 keys Source (u64_of_SourceKeyType SDKEK) 0 \<Longrightarrow>
   HasKey128 keys Source (u64_of_SourceKeyType AESKEKGeneration) 0 \<Longrightarrow>
   HasKey128 keys Source (u64_of_SourceKeyType AESKeyGeneration) 0 \<Longrightarrow>
   HasKey128 keys SDSeed 0 0 \<Longrightarrow>
   HasKey256 keys SDKeySource (u64_of_SDKeyType Save) 0 \<Longrightarrow>
   \<not> HasKey256 keys SDKeySource (u64_of_SDKeyType NCA) 0 \<Longrightarrow>
   fst (DeriveSDKeys aes sd_keys keys) = ErrorMissingSDNCAKeySource"
  by (simp add: DeriveSDKeys_def Let_def)

lemma DeriveSDKeys_all_present:
  "all_operands keys \<Longrightarrow> fst (DeriveSDKeys aes sd_keys keys) = Success"
  by (simp add: DeriveSDKeys_def all_operands_def Let_def)

lemma DeriveSDKeys_Success_present:
  "fst (DeriveSDKeys aes sd_keys keys) = Success \<Longrightarrow> all_operands keys"
  unfolding all_operands_def
  using DeriveSDKeys_no_SDKEK [of keys aes sd_keys]
    DeriveSDKeys_no_AESKEKGeneration [of keys aes sd_keys]
    DeriveSDKeys_no_AESKeyGeneration [of keys aes sd_keys]
    DeriveSDKeys_no_SDSeed [of keys aes sd_keys]
    DeriveSDKeys_no_Save [of keys aes sd_keys]
    DeriveSDKeys_no_NCA [of keys aes sd_keys]
  by (metis ResultStatus.distinct(1,3,5,7,9,11))

lemma DeriveSDKeys_present_output:
  "all_operands keys \<Longrightarrow>
   fst (snd (DeriveSDKeys aes sd_keys keys)) =
     transform_decrypt aes
       \<lparr>cipher_key = GenerateKeyEncryptionKey aes
           (GetKey128 keys Source (u64_of_SourceKeyType SDKEK) 0)
           (GetKey128 keys Master 0 0)
           (GetKey128 keys Source (u64_of_SourceKeyType AESKEKGeneration) 0)
           (GetKey128 keys Source (u64_of_SourceKeyType AESKeyGeneration) 0),
        cipher_mode = ECB\<rparr>
       [xor_with_seed (GetKey128 keys SDSeed 0 0)
          (GetKey256 keys SDKeySource (u64_of_SDKeyType Save) 0),
        xor_with_seed (GetKey128 keys SDSeed 0 0)
          (GetKey256 keys SDKeySource (u64_of_SDKeyType NCA) 0)]
       sd_keys"
  by (simp add: DeriveSDKeys_def all_operands_def Let_def combine_loop_xor)

text \<open>
  Claim C5. When \<open>DeriveSDKeys\<close> succeeds, each of the two 32-byte key sources is first
  XORed byte by byte with the seed repeated every sixteen bytes (byte \<open>i\<close> with
  \<open>seed[i mod 16]\<close>), then ECB-decrypted under the derived SD key-encryption key, and the
  two results are written to \<open>sd_keys\<close> in the order save key, NCA key.
\<close>

theorem DeriveSDKeys_success_output:
  assumes aes: "keeps_size aes" and wf: "wf_KeyManager keys"
    and len: "length sd_keys = 2" and lens: "\<forall>k \<in> set sd_keys. length k = 32"
    and ok: "fst (DeriveSDKeys aes sd_keys keys) = Success"
  shows "fst (snd (DeriveSDKeys aes sd_keys keys)) =
     [unwrap aes
        (GenerateKeyEncryptionKey aes
           (GetKey128 keys Source (u64_of_SourceKeyType SDKEK) 0)
           (GetKey128 keys Master 0 0)
           (GetKey128 keys Source (u64_of_SourceKeyType AESKEKGeneration) 0)
           (GetKey128 keys Source (u64_of_SourceKeyType AESKeyGeneration) 0))
        (xor_with_seed (GetKey128 keys SDSeed 0 0)
           (GetKey256 keys SDKeySource (u64_of_SDKeyType Save) 0)),
      unwrap aes
        (GenerateKeyEncryptionKey aes
           (GetKey128 keys Source (u64_of_SourceKeyType SDKEK) 0)
           (GetKey128 keys Master 0 0)
           (GetKey128 keys Source (u64_of_SourceKeyType AESKEKGeneration) 0)
           (GetKey128 keys Source (u64_of_SourceKeyType AESKeyGeneration) 0))
        (xor_with_seed (GetKey128 keys SDSeed 0 0)
           (GetKey256 keys SDKeySource (u64_of_SDKeyType NCA) 0))]"
proof -
  let ?kek = "GenerateKeyEncryptionKey aes
           (GetKey128 keys Source (u64_of_SourceKeyType SDKEK) 0)
           (GetKey128 keys Master 0 0)
           (GetKey128 keys Source (u64_of_SourceKeyType AESKEKGeneration) 0)
           (GetKey128 keys Source (u64_of_SourceKeyType AESKeyGeneration) 0)"
  let ?c = "\<lparr>cipher_key = ?kek, cipher_mode = ECB\<rparr>"
  let ?save = "xor_with_seed (GetKey128 keys SDSeed 0 0)
           (GetKey256 keys SDKeySource (u64_of_SDKeyType Save) 0)"
  let ?nca = "xor_with_seed (GetKey128 keys SDSeed 0 0)
           (GetKey256 keys SDKeySource (u64_of_SDKeyType NCA) 0)"
  have all: "all_operands keys" using ok by (rule DeriveSDKeys_Success_present)
  obtain a b where sd: "sd_keys = [a, b]"
    using len by (cases sd_keys; cases "tl sd_keys") auto
  have la: "length a = 32" and lb: "length b = 32" using lens sd by auto
  have ls: "length ?save = 32"
    using all wf by (simp add: all_operands_def GetKey256_length length_xor_with_seed)
  have ln: "length ?nca = 32"
    using all wf by (simp add: all_operands_def GetKey256_length length_xor_with_seed)
  have t1: "Transcode aes ?c ?save (length ?save) a Decrypt = unwrap aes ?kek ?save"
    using Transcode_whole [OF aes, of a ?save ?c Decrypt] la ls by (simp add: unwrap_def)
  have t2: "Transcode aes ?c ?nca (length ?nca) b Decrypt = unwrap aes ?kek ?nca"
    using Transcode_whole [OF aes, of b ?nca ?c Decrypt] lb ln by (simp add: unwrap_def)
  show ?thesis
    unfolding DeriveSDKeys_present_output [OF all] sd
    by (simp only: transform_decrypt.simps t1 t2)
qed

theorem DeriveSDKeys_success_output_witness:
  "keeps_size test_aes \<and> wf_KeyManager test_store \<and>
   fst (DeriveSDKeys test_aes test_sd_keys test_store) = Success \<and>
   fst (snd (DeriveSDKeys test_aes test_sd_keys test_store)) =
     [unwrap test_aes (replicate 16 10)
        (xor_with_seed [0, 1, 2, 3, 4, 5, 6, 7, 8, 9, 10, 11, 12, 13, 14, 15] (replicate 32 6)),
      unwrap test_aes (replicate 16 10)
        (xor_with_seed [0, 1, 2, 3, 4, 5, 6, 7, 8, 9, 10, 11, 12, 13, 14, 15] (replicate 32 7))] \<and>
   fst (snd (DeriveSDKeys test_aes test_sd_keys test_store)) =
     [[13, 14, 15, 16, 9, 10, 11, 12, 5, 6, 7, 8, 1, 2, 3, 4,
       13, 14, 15, 16, 9, 10, 11, 12, 5, 6, 7, 8, 1, 2, 3, 4],
      [14, 13, 16, 15, 10, 9, 12, 11, 6, 5, 8, 7, 2, 1, 4, 3,
       14, 13, 16, 15, 10, 9, 12, 11, 6, 5, 8, 7, 2, 1, 4, 3]]"
proof -
  have len: "length test_sd_keys = 2" by (simp add: test_sd_keys_def)
  have lens: "\<forall>k \<in> set test_sd_keys. length k = 32" by (simp add: test_sd_keys_def)
  have ok: "fst (DeriveSDKeys test_aes test_sd_keys test_store) = Success" by code_simp
  have kek: "GenerateKeyEncryptionKey test_aes
           (GetKey128 test_store Source (u64_of_SourceKeyType SDKEK) 0)
           (GetKey128 test_store Master 0 0)
           (GetKey128 test_store Source (u64_of_SourceKeyType AESKEKGeneration) 0)
           (GetKey128 test_store Source (u64_of_SourceKeyType AESKeyGeneration) 0) =
         replicate 16 10"
    by code_simp
  have seed: "GetKey128 test_store SDSeed 0 0 =
      [0, 1, 2, 3, 4, 5, 6, 7, 8, 9, 10, 11, 12, 13, 14, 15]"
    by code_simp
  have save: "GetKey256 test_store SDKeySource (u64_of_SDKeyType Save) 0 = replicate 32 6"
    by code_simp
  have nca: "GetKey256 test_store SDKeySource (u64_of_SDKeyType NCA) 0 = replicate 32 7"
    by code_simp
  have out: "fst (snd (DeriveSDKeys test_aes test_sd_keys test_store)) =
     [unwrap test_aes (replicate 16 10)
        (xor_with_seed [0, 1, 2, 3, 4, 5, 6, 7, 8, 9, 10, 11, 12, 13, 14, 15] (replicate 32 6)),
      unwrap test_aes (replicate 16 10)
        (xor_with_seed [0, 1, 2, 3, 4, 5, 6, 7, 8, 9, 10, 11, 12, 13, 14, 15] (replicate 32 7))]"
    using DeriveSDKeys_success_output [OF keeps_size_test_aes wf_test_store len lens ok]
    unfolding kek seed save nca .
  have val: "fst (snd (DeriveSDKeys test_aes test_sd_keys test_store)) =
     [[13, 14, 15, 16, 9, 10, 11, 12, 5, 6, 7, 8, 1, 2, 3, 4,
       13, 14, 15, 16, 9, 10, 11, 12, 5, 6, 7, 8, 1, 2, 3, 4],
      [14, 13, 16, 15, 10, 9, 12, 11, 6, 5, 8, 7, 2, 1, 4, 3,
       14, 13, 16, 15, 10, 9, 12, 11, 6, 5, 8, 7, 2, 1, 4, 3]]"
    by code_simp
  from keeps_size_test_aes wf_test_store ok out val show ?thesis by blast
qed

text \<open>
  Claim C6. \<open>DeriveSDKeys\<close> checks its six operands in the order SD-KEK source,
  AES-KEK-generation source, AES-key-generation source, SD seed, save key source, NCA key
  source: the first of them that is absent decides the status, and each has a status of its
  own. So a store that lacks exactly one of the six gets the status that names it. When
  all six are present the status is \<open>Success\<close> and \<open>sd_keys\<close> holds exactly two keys.
\<close>

theorem DeriveSDKeys_precedence:
  "(\<not> HasKey128 keys Source (u64_of_SourceKeyType SDKEK) 0 \<longrightarrow>
      fst (DeriveSDKeys aes sd_keys keys) = ErrorMissingSDKEKSource) \<and>
   (HasKey128 keys Source (u64_of_SourceKeyType SDKEK) 0 \<and>
    \<not> HasKey128 keys Source (u64_of_SourceKeyType AESKEKGeneration) 0 \<longrightarrow>
      fst (DeriveSDKeys aes sd_keys keys) = ErrorMissingAESKEKGenerationSource) \<and>
   (HasKey128 keys Source (u64_of_SourceKeyType SDKEK) 0 \<and>
    HasKey128 keys Source (u64_of_SourceKeyType AESKEKGeneration) 0 \<and>
    \<not> HasKey128 keys Source (u64_of_SourceKeyType AESKeyGeneration) 0 \<longrightarrow>
      fst (DeriveSDKeys aes sd_keys keys) = ErrorMissingAESKeyGenerationSource) \<and>
   (HasKey128 keys Source (u64_of_SourceKeyType SDKEK) 0 \<and>
    HasKey128 keys Source (u64_of_SourceKeyType AESKEKGeneration) 0 \<and>
    HasKey128 keys Source (u64_of_SourceKeyType AESKeyGeneration) 0 \<and>
    \<not> HasKey128 keys SDSeed 0 0 \<longrightarrow>
      fst (DeriveSDKeys aes sd_keys keys) = ErrorMissingSDSeed) \<and>
   (HasKey128 keys Source (u64_of_SourceKeyType SDKEK) 0 \<and>
    HasKey128 keys Source (u64_of_SourceKeyType AESKEKGeneration) 0 \<and>
    HasKey128 keys Source (u64_of_SourceKeyType AESKeyGeneration) 0 \<and>
    HasKey128 keys SDSeed 0 0 \<and>
    \<not> HasKey256 keys SDKeySource (u64_of_SDKeyType Save) 0 \<longrightarrow>
      fst (DeriveSDKeys aes sd_keys keys) = ErrorMissingSDSaveKeySource) \<and>
   (HasKey128 keys Source (u64_of_SourceKeyType SDKEK) 0 \<and>
    HasKey128 keys Source (u64_of_SourceKeyType AESKEKGeneration) 0 \<and>
    HasKey128 keys Source (u64_of_SourceKeyType AESKeyGeneration) 0 \<and>
    HasKey128 keys SDSeed 0 0 \<and>
    HasKey256 keys SDKeySource (u64_of_SDKeyType Save) 0 \<and>
    \<not> HasKey256 keys SDKeySource (u64_of_SDKeyType NCA) 0 \<longrightarrow>
      fst (DeriveSDKeys aes sd_keys keys) = ErrorMissingSDNCAKeySource) \<and>
   (HasKey128 keys Source (u64_of_SourceKeyType SDKEK) 0 \<and>
    HasKey128 keys Source (u64_of_SourceKeyType AESKEKGeneration) 0 \<and>
    HasKey128 keys Source (u64_of_SourceKeyType AESKeyGeneration) 0 \<and>
    HasKey128 keys SDSeed 0 0 \<and>
    HasKey256 keys SDKeySource (u64_of_SDKeyType Save) 0 \<and>
    HasKey256 keys SDKeySource (u64_of_SDKeyType NCA) 0 \<longrightarrow>
      fst (DeriveSDKeys aes sd_keys keys) = Success \<and>
      (length sd_keys = 2 \<longrightarrow> length (fst (snd (DeriveSDKeys aes sd_keys keys))) = 2))"
proof -
  have two: "length sd_keys = 2 \<Longrightarrow> length (transform_decrypt aes c [s1, s2] sd_keys) = 2"
    for c s1 s2
    by (cases sd_keys; cases "tl sd_keys") auto
  have all: "all_operands keys \<Longrightarrow>
      fst (DeriveSDKeys aes sd_keys keys) = Success \<and>
      (length sd_keys = 2 \<longrightarrow> length (fst (snd (DeriveSDKeys aes sd_keys keys))) = 2)"
    by (simp add: DeriveSDKeys_all_present DeriveSDKeys_present_output two)
  show ?thesis
    using DeriveSDKeys_no_SDKEK [of keys aes sd_keys]
      DeriveSDKeys_no_AESKEKGeneration [of keys aes sd_keys]
      DeriveSDKeys_no_AESKeyGeneration [of keys aes sd_keys]
      DeriveSDKeys_no_SDSeed [of keys aes sd_keys]
      DeriveSDKeys_no_Save [of keys aes sd_keys]
      DeriveSDKeys_no_NCA [of keys aes sd_keys] all
    unfolding all_operands_def by blast
qed

theorem DeriveSDKeys_precedence_witness:
  "fst (DeriveSDKeys test_aes test_sd_keys
      (test_store_without128 (KeyIndex Source (u64_of_SourceKeyType SDKEK) 0)))
     = ErrorMissingSDKEKSource \<and>
   fst (DeriveSDKeys test_aes test_sd_keys
      (test_store_without128 (KeyIndex Source (u64_of_SourceKeyType AESKEKGeneration) 0)))
     = ErrorMissingAESKEKGenerationSource \<and>
   fst (DeriveSDKeys test_aes test_sd_keys
      (test_store_without128 (KeyIndex Source (u64_of_SourceKeyType AESKeyGeneration) 0)))
     = ErrorMissingAESKeyGenerationSource \<and>
   fst (DeriveSDKeys test_aes test_sd_keys (test_store_without128 (KeyIndex SDSeed 0 0)))
     = ErrorMissingSDSeed \<and>
   fst (DeriveSDKeys test_aes test_sd_keys
      (test_store_without256 (KeyIndex SDKeySource (u64_of_SDKeyType Save) 0)))
     = ErrorMissingSDSaveKeySource \<and>
   fst (DeriveSDKeys test_aes test_sd_keys
      (test_store_without256 (KeyIndex SDKeySource (u64_of_SDKeyType NCA) 0)))
     = ErrorMissingSDNCAKeySource \<and>
   fst (DeriveSDKeys test_aes test_sd_keys test_store) = Success \<and>
   length (fst (snd (DeriveSDKeys test_aes test_sd_keys test_store))) = 2"
proof -
  have h: "HasKey128 test_store Source (u64_of_SourceKeyType SDKEK) 0"
    "HasKey128 test_store Source (u64_of_SourceKeyType AESKEKGeneration) 0"
    "HasKey128 test_store Source (u64_of_SourceKeyType AESKeyGeneration) 0"
    "HasKey128 test_store SDSeed 0 0"
    "HasKey256 test_store SDKeySource (u64_of_SDKeyType Save) 0"
    "HasKey256 test_store SDKeySource (u64_of_SDKeyType NCA) 0"
    by (simp_all add: HasKey128_def HasKey256_def test_store_def)
  have len: "length test_sd_keys = 2" by (simp add: test_sd_keys_def)
  have a1: "fst (DeriveSDKeys test_aes test_sd_keys
      (test_store_without128 (KeyIndex Source (u64_of_SourceKeyType SDKEK) 0)))
     = ErrorMissingSDKEKSource"
    using DeriveSDKeys_precedence
      [of "test_store_without128 (KeyIndex Source (u64_of_SourceKeyType SDKEK) 0)"
        test_aes test_sd_keys]
    by (simp add: HasKey128_def HasKey256_def test_store_def test_store_without128_def)
  have a2: "fst (DeriveSDKeys test_aes test_sd_keys
      (test_store_without128 (KeyIndex Source (u64_of_SourceKeyType AESKEKGeneration) 0)))
     = ErrorMissingAESKEKGenerationSource"
    using DeriveSDKeys_precedence
      [of "test_store_without128 (KeyIndex Source (u64_of_SourceKeyType AESKEKGeneration) 0)"
        test_aes test_sd_keys]
    by (simp add: HasKey128_def HasKey256_def test_store_def test_store_without128_def)
  have a3: "fst (DeriveSDKeys test_aes test_sd_keys
      (test_store_without128 (KeyIndex Source (u64_of_SourceKeyType AESKeyGeneration) 0)))
     = ErrorMissingAESKeyGenerationSource"
    using DeriveSDKeys_precedence
      [of "test_store_without128 (KeyIndex Source (u64_of_SourceKeyType AESKeyGeneration) 0)"
        test_aes test_sd_keys]
    by (simp add: HasKey128_def HasKey256_def test_store_def test_store_without128_def)
  have a4: "fst (DeriveSDKeys test_aes test_sd_keys (test_store_without128 (KeyIndex SDSeed 0 0)))
     = ErrorMissingSDSeed"
    using DeriveSDKeys_precedence
      [of "test_store_without128 (KeyIndex SDSeed 0 0)" test_aes test_sd_keys]
    by (simp add: HasKey128_def HasKey256_def test_store_def test_store_without128_def)
  have a5: "fst (DeriveSDKeys test_aes test_sd_keys
      (test_store_without256 (KeyIndex SDKeySource (u64_of_SDKeyType Save) 0)))
     = ErrorMissingSDSaveKeySource"
    using DeriveSDKeys_precedence
      [of "test_store_without256 (KeyIndex SDKeySource (u64_of_SDKeyType Save) 0)"
        test_aes test_sd_keys]
    by (simp add: HasKey128_def HasKey256_def test_store_def test_store_without256_def)
  have a6: "fst (DeriveSDKeys test_aes test_sd_keys
      (test_store_without256 (KeyIndex SDKeySource (u64_of_SDKeyType NCA) 0)))
     = ErrorMissingSDNCAKeySource"
    using DeriveSDKeys_precedence
      [of "test_store_without256 (KeyIndex SDKeySource (u64_of_SDKeyType NCA) 0)"
        test_aes test_sd_keys]
    by (simp add: HasKey128_def HasKey256_def test_store_def test_store_without256_def)
  have a7: "fst (DeriveSDKeys test_aes test_sd_keys test_store) = Success \<and>
      length (fst (snd (DeriveSDKeys test_aes test_sd_keys test_store))) = 2"
    using DeriveSDKeys_precedence [of test_store test_aes test_sd_keys] h len by blast
  from a1 a2 a3 a4 a5 a6 a7 show ?thesis by blast
qed

lemma DeriveSDKeys_calls:
  "all_operands keys \<Longrightarrow>
   snd (snd (DeriveSDKeys aes sd_keys keys)) =
     [CallHasKey128 Source (u64_of_SourceKeyType SDKEK) 0,
      CallHasKey128 Source (u64_of_SourceKeyType AESKEKGeneration) 0,
      CallHasKey128 Source (u64_of_SourceKeyType AESKeyGeneration) 0,
      CallGetKey128 Source (u64_of_SourceKeyType SDKEK) 0,
      CallGetKey128 Source (u64_of_SourceKeyType AESKEKGeneration) 0,
      CallGetKey128 Source (u64_of_SourceKeyType AESKeyGeneration) 0,
      CallGetKey128 Master 0 0,
      CallHasKey128 SDSeed 0 0,
      CallGetKey128 SDSeed 0 0,
      CallHasKey256 SDKeySource (u64_of_SDKeyType Save) 0,
      CallHasKey256 SDKeySource (u64_of_SDKeyType NCA) 0,
      CallGetKey256 SDKeySource (u64_of_SDKeyType Save) 0,
      CallGetKey256 SDKeySource (u64_of_SDKeyType NCA) 0]"
  by (simp add: DeriveSDKeys_def all_operands_def Let_def)

text \<open>
  Claim C2. The claim says that every operand \<open>DeriveSDKeys\<close> reads with \<open>GetKey\<close>, the
  generation-0 master key included, is checked with \<open>HasKey\<close> first, and that an absent
  operand gives a missing-operand status before \<open>GetKey\<close> is called on it. The code checks
  the three sources, the seed and the two key sources, but it calls
  \<open>keys.GetKey(S128KeyType::Master)\<close> with no \<open>HasKey\<close> before it. On a store that holds the
  six checked operands and no master key, it reads the all-zero key that \<open>GetKey\<close> returns
  for an absent index, derives from it and returns \<open>Success\<close>; the sequence of its calls on
  the store has no \<open>HasKey\<close> for the master key. \<open>DeriveSDKeys_calls\<close> above gives the same
  sequence of calls for every store that holds the six checked operands and for every cipher.
\<close>

theorem DeriveSDKeys_reads_master_unchecked:
  "\<not> HasKey128 (test_store_without128 (KeyIndex Master 0 0)) Master 0 0 \<and>
   GetKey128 (test_store_without128 (KeyIndex Master 0 0)) Master 0 0 = replicate 16 0 \<and>
   fst (DeriveSDKeys test_aes test_sd_keys (test_store_without128 (KeyIndex Master 0 0)))
     = Success \<and>
   snd (snd (DeriveSDKeys test_aes test_sd_keys (test_store_without128 (KeyIndex Master 0 0))))
     = [CallHasKey128 Source 0 0, CallHasKey128 Source 1 0, CallHasKey128 Source 2 0,
        CallGetKey128 Source 0 0, CallGetKey128 Source 1 0, CallGetKey128 Source 2 0,
        CallGetKey128 Master 0 0,
        CallHasKey128 SDSeed 0 0, CallGetKey128 SDSeed 0 0,
        CallHasKey256 SDKeySource 0 0, CallHasKey256 SDKeySource 1 0,
        CallGetKey256 SDKeySource 0 0, CallGetKey256 SDKeySource 1 0]"
  by code_simp

end
